theory Spec2Isabelle
  imports Complex_Main
begin

section \<open>Python values used by app.py\<close>

subsection \<open>Strings\<close>

text \<open>
  A Python \<open>str\<close> is a sequence of Unicode code points, so it is modelled as a list of
  naturals. \<open>ascii\<close> embeds an ASCII literal; the few non-ASCII characters of the
  source's messages are written as their code points.
\<close>

type_synonym str = "nat list"

definition ascii :: "string \<Rightarrow> str" where
  "ascii s = map of_char s"

text \<open>
  \<open>str.strip()\<close> without argument removes leading and trailing whitespace, where
  whitespace is what \<open>str.isspace\<close> accepts.
\<close>

definition isspace :: "nat \<Rightarrow> bool" where
  "isspace c \<longleftrightarrow>
     (0x9 \<le> c \<and> c \<le> 0xD) \<or> (0x1C \<le> c \<and> c \<le> 0x20) \<or> c = 0x85 \<or> c = 0xA0 \<or>
     c = 0x1680 \<or> (0x2000 \<le> c \<and> c \<le> 0x200A) \<or> c = 0x2028 \<or> c = 0x2029 \<or>
     c = 0x202F \<or> c = 0x205F \<or> c = 0x3000"

definition strip :: "str \<Rightarrow> str" where
  "strip s = rev (dropWhile isspace (rev (dropWhile isspace s)))"

subsection \<open>Dictionaries\<close>

text \<open>
  A dict literal is an association list in the order it is written;
  \<open>d.get(k, default)\<close> looks the key up and falls back to the default.
\<close>

definition dict_get :: "('k \<times> 'v) list \<Rightarrow> 'k \<Rightarrow> 'v \<Rightarrow> 'v" where
  "dict_get d k dflt = (case map_of d k of Some v \<Rightarrow> v | None \<Rightarrow> dflt)"

text \<open>Lines 9-14: the label mapping for AG News categories.\<close>

definition NEWS_LABEL_MAP :: "(str \<times> str) list" where
  "NEWS_LABEL_MAP =
     [(ascii ''LABEL_0'', ascii ''World''),
      (ascii ''LABEL_1'', ascii ''Sports''),
      (ascii ''LABEL_2'', ascii ''Business''),
      (ascii ''LABEL_3'', ascii ''Sci/Tech'')]"

subsection \<open>Scores\<close>

text \<open>
  Scores are Python floats, that is IEEE 754 binary64 numbers. A finite float is kept as
  the rational number it denotes; \<open>Non_finite\<close> stands for \<open>inf\<close>, \<open>-inf\<close> and
  \<open>nan\<close>, between which the model does not distinguish, as it does not between the two
  zeros. An arithmetic operation yields the float nearest to its exact result, a tie
  going to the even mantissa, and overflows to \<open>inf\<close>.
\<close>

datatype float = Finite rat | Non_finite

text \<open>Rounding to the nearest integer, a tie going to the even one.\<close>

definition round_half_even :: "rat \<Rightarrow> int" where
  "round_half_even x =
     (let f = \<lfloor>x\<rfloor>; d = x - of_int f
      in if d < 1 / 2 then f
         else if 1 / 2 < d then f + 1
         else if even f then f else f + 1)"

text \<open>
  The floats whose last place has the exponent \<open>e\<close> are the whole multiples of
  \<open>2^e\<close> that are smaller than \<open>2^53 * 2^e\<close> in size; the least exponent is
  \<open>-1074\<close>. \<open>ulp_exponent_from e x\<close> is the least exponent, from \<open>e\<close> on, whose
  floats reach beyond \<open>x\<close>, and \<open>fl x\<close> is the multiple of that power of two
  nearest to \<open>x\<close>: the float nearest to \<open>x\<close>, were the exponent unbounded above.
\<close>

function ulp_exponent_from :: "int \<Rightarrow> rat \<Rightarrow> int" where
  "ulp_exponent_from e x =
     (if \<bar>x\<bar> < 2 ^ 53 * 2 powi e then e else ulp_exponent_from (e + 1) x)"
  by pat_completeness auto
termination
proof (relation "measure (\<lambda>(e, x). nat \<lfloor>\<bar>x\<bar> / 2 powi e\<rfloor>)")
  show "wf (measure (\<lambda>(e, x). nat \<lfloor>\<bar>x\<bar> / 2 powi e\<rfloor>))" by simp
next
  fix e :: int and x :: rat
  assume a: "\<not> \<bar>x\<bar> < 2 ^ 53 * 2 powi e"
  define v where "v = \<bar>x\<bar> / 2 powi e"
  have pos: "(0::rat) < 2 powi e" by simp
  have v: "2 ^ 53 \<le> v" using a pos by (simp add: v_def pos_le_divide_eq)
  have step: "\<bar>x\<bar> / 2 powi (e + 1) = v / 2"
    by (simp add: v_def power_int_add_1)
  have "v / 2 \<le> v - 1" using v by simp
  then have "\<lfloor>v / 2\<rfloor> \<le> \<lfloor>v - 1\<rfloor>" by (rule floor_mono)
  then have "\<lfloor>v / 2\<rfloor> < \<lfloor>v\<rfloor>" by simp
  moreover have "1 \<le> \<lfloor>v\<rfloor>" using v by (simp add: le_floor_iff)
  ultimately have "nat \<lfloor>v / 2\<rfloor> < nat \<lfloor>v\<rfloor>" by simp
  then show "((e + 1, x), (e, x)) \<in> measure (\<lambda>(e, x). nat \<lfloor>\<bar>x\<bar> / 2 powi e\<rfloor>)"
    by (simp add: step v_def [symmetric])
qed

declare ulp_exponent_from.simps [simp del]

definition fl :: "rat \<Rightarrow> rat" where
  "fl x =
     (let e = ulp_exponent_from (- 1074) x
      in of_int (round_half_even (x / 2 powi e)) * 2 powi e)"

text \<open>The float that an operation with the exact result \<open>x\<close> yields.\<close>

definition float_of :: "rat \<Rightarrow> float" where
  "float_of x = (if \<bar>fl x\<bar> < 2 ^ 1024 then Finite (fl x) else Non_finite)"

text \<open>\<open>x * 100\<close> on a float (lines 69, 78 and 88).\<close>

fun times_100 :: "float \<Rightarrow> float" where
  "times_100 (Finite x) = float_of (x * 100)"
| "times_100 Non_finite = Non_finite"

text \<open>
  The built-in \<open>round(x, 2)\<close> of line 88: the exact value of the float is rounded to
  two decimals, a tie going to the even digit, and the float nearest to that decimal
  number is returned.
\<close>

fun round_2 :: "float \<Rightarrow> float" where
  "round_2 (Finite x) = float_of (of_int (round_half_even (x * 100)) / 100)"
| "round_2 Non_finite = Non_finite"

text \<open>
  \<open>round(2)\<close> on a pandas Series (lines 69 and 78) is numpy's \<open>around\<close>, which works
  in floats on every element: it multiplies by \<open>100.0\<close>, rounds to the nearest whole
  float (\<open>rint\<close>, a tie going to the even one) and divides by \<open>100.0\<close>.
\<close>

fun around_2 :: "float \<Rightarrow> float" where
  "around_2 (Finite x) =
     (case float_of (x * 100) of
        Finite y \<Rightarrow> float_of (of_int (round_half_even y) / 100)
      | Non_finite \<Rightarrow> Non_finite)"
| "around_2 Non_finite = Non_finite"

subsection \<open>Exceptions\<close>

text \<open>
  Every raise of the script is a value. \<open>Exception m\<close> is an exception raised
  by an external service, \<open>m\<close> being the text that \<open>str(e)\<close> gives for it;
  \<open>StopException\<close> is what \<open>st.stop()\<close> raises to end the script run; the others
  are raised by list indexing, pandas and plotly.
\<close>

datatype exn =
    Exception str
  | StopException
  | IndexError
  | KeyError str
  | ValueError str
  | TypeError

subsection \<open>Data frames\<close>

text \<open>
  A classifier emits a list of dicts \<open>{'label': l, 'score': p}\<close>, modelled as pairs.
  A pandas \<open>DataFrame\<close> is the ordered list of its named columns; a column
  (\<open>Series\<close>) holds strings or numbers. \<open>pd.DataFrame(results)\<close> takes its columns
  from the keys of the dicts, so the frame of an empty list has no column at all.
\<close>

type_synonym row = "str \<times> float"

datatype series = Strs "str list" | Nums "float list"

type_synonym dataframe = "(str \<times> series) list"

definition DataFrame :: "row list \<Rightarrow> dataframe" where
  "DataFrame results =
     (if results = [] then []
      else [(ascii ''label'', Strs (map fst results)),
            (ascii ''score'', Nums (map snd results))])"

text \<open>\<open>df[c]\<close> raises \<open>KeyError\<close> for a column that is not there.\<close>

definition getitem :: "dataframe \<Rightarrow> str \<Rightarrow> exn + series" where
  "getitem df c = (case map_of df c of None \<Rightarrow> Inl (KeyError c) | Some s \<Rightarrow> Inr s)"

text \<open>\<open>df[c] = s\<close> replaces the column in place, or appends a new one.\<close>

fun setitem :: "dataframe \<Rightarrow> str \<Rightarrow> series \<Rightarrow> dataframe" where
  "setitem [] c s = [(c, s)]"
| "setitem ((c', s') # df) c s =
     (if c' = c then (c, s) # df else (c', s') # setitem df c s)"

text \<open>
  \<open>(s * 100).round(2)\<close> on a Series of numbers, element by element. The score column of a frame built
  from the output of a classifier always holds numbers; a column of strings never
  reaches lines 69 and 78, and the model ends such a run with \<open>TypeError\<close>.
\<close>

fun times_100_round_2 :: "series \<Rightarrow> exn + series" where
  "times_100_round_2 (Nums xs) = Inr (Nums (map (\<lambda>x. around_2 (times_100 x)) xs))"
| "times_100_round_2 (Strs xs) = Inl TypeError"

text \<open>\<open>df.rename(columns=m)\<close> renames the columns that \<open>m\<close> mentions.\<close>

definition rename :: "(str \<times> str) list \<Rightarrow> dataframe \<Rightarrow> dataframe" where
  "rename m df = map (\<lambda>(c, s). (dict_get m c c, s)) df"

fun series_len :: "series \<Rightarrow> nat" where
  "series_len (Strs xs) = length xs"
| "series_len (Nums xs) = length xs"

text \<open>\<open>len(df)\<close> is the number of rows.\<close>

fun len :: "dataframe \<Rightarrow> nat" where
  "len [] = 0"
| "len ((c, s) # df) = series_len s"

section \<open>The user interface and the external services\<close>

text \<open>
  The three tasks of the select box (line 41). \<open>st.selectbox\<close> returns one of its
  options, so the task is one of exactly these values.
\<close>

datatype task =
    Sentiment_Analysis
  | Toxic_Comment_Detection
  | News_Category_Classification

text \<open>
  The figure that \<open>px.pie\<close> builds and \<open>update_traces\<close> completes: the data
  of its arguments \<open>names\<close> and \<open>values\<close>, the title, the hole, and of the trace
  the text shown on a sector (\<open>textinfo\<close>) and the pull of each sector. The hole
  and the pull are the decimal literals \<open>0.4\<close> and \<open>0.02\<close> of the source, kept as
  the decimals written.
\<close>

record figure =
  fig_names :: series
  fig_values :: series
  fig_title :: str
  fig_hole :: rat
  fig_textinfo :: str
  fig_pull :: "rat list"

text \<open>
  What a run of the script does to the outside world, in order: the construction of a
  pipeline from a model name, the calls of the language detector, of the translator
  and of a classifier pipeline (with the text passed), and the Streamlit calls that
  draw something. The spinners only decorate the
  page while a block runs and are left out, as is the layout argument
  \<open>use_container_width\<close>.
\<close>

datatype event =
    Call_pipeline str
  | Call_detect str
  | Call_translate str
  | Call_pipe task str
  | St_error str
  | St_markdown str
  | St_info str
  | St_subheader str
  | St_dataframe dataframe
  | St_plotly_chart figure

text \<open>
  The external services are parameters of the model. \<open>detect\<close> is langdetect's
  function, \<open>translate\<close> is \<open>GoogleTranslator(source='auto', target='en').translate\<close>;
  the three pipelines are what \<open>load_pipelines\<close> returns (lines 17-22): called on
  one string, a pipeline returns a list of lists of label/score dicts, one inner list
  for the one input. Each service returns its result (\<open>Inr\<close>) or raises an
  exception (\<open>Inl m\<close>, with \<open>m\<close> the text of the exception).
\<close>

type_synonym classifier = "str \<Rightarrow> str + row list list"

record env =
  detect :: "str \<Rightarrow> str + str"
  translate :: "str \<Rightarrow> str + str"
  sentiment_pipe :: classifier
  toxic_pipe :: classifier
  category_pipe :: classifier

subsection \<open>Running a block of the script\<close>

text \<open>
  A block of statements yields the events it caused and then either a value or the
  exception that ended it. \<open>bind\<close> is sequencing: an exception in the first part
  skips the second.
\<close>

type_synonym 'a run = "event list \<times> (exn + 'a)"

definition return :: "'a \<Rightarrow> 'a run" where
  "return x = ([], Inr x)"

definition raise :: "exn \<Rightarrow> 'a run" where
  "raise e = ([], Inl e)"

definition emit :: "event \<Rightarrow> unit run" where
  "emit ev = ([ev], Inr ())"

definition lift :: "exn + 'a \<Rightarrow> 'a run" where
  "lift r = ([], r)"

definition bind :: "'a run \<Rightarrow> ('a \<Rightarrow> 'b run) \<Rightarrow> 'b run" where
  "bind m f =
     (case m of
        (evs, Inl e) \<Rightarrow> (evs, Inl e)
      | (evs, Inr x) \<Rightarrow> (case f x of (evs', r) \<Rightarrow> (evs @ evs', r)))"

text \<open>The outcome of a call of an external service that no \<open>try\<close> encloses.\<close>

definition call :: "str + 'a \<Rightarrow> 'a run" where
  "call r = (case r of Inl m \<Rightarrow> raise (Exception m) | Inr x \<Rightarrow> return x)"

text \<open>The subscript \<open>[0]\<close> of lines 67, 76 and 85; an empty list has no item 0.\<close>

fun item_0 :: "'a list \<Rightarrow> exn + 'a" where
  "item_0 [] = Inl IndexError"
| "item_0 (x # xs) = Inr x"

section \<open>The script\<close>

subsection \<open>Lines 17-22 and 32: loading the pipelines\<close>

text \<open>
  The body of \<open>load_pipelines\<close>. \<open>pipeline\<close> is the constructor of the
  transformers library, given the task \<open>"text-classification"\<close>, a model name and
  \<open>return_all_scores=True\<close>: it loads the model and returns the classifier, or raises.
\<close>

definition load_pipelines ::
  "(str \<Rightarrow> str + classifier) \<Rightarrow> (classifier \<times> classifier \<times> classifier) run" where
  "load_pipelines pipeline =
     bind (emit (Call_pipeline
             (ascii ''distilbert-base-uncased-finetuned-sst-2-english''))) (\<lambda>_.
     bind (call (pipeline
             (ascii ''distilbert-base-uncased-finetuned-sst-2-english''))) (\<lambda>sentiment_pipe.
     bind (emit (Call_pipeline (ascii ''unitary/toxic-bert''))) (\<lambda>_.
     bind (call (pipeline (ascii ''unitary/toxic-bert''))) (\<lambda>toxic_pipe.
     bind (emit (Call_pipeline
             (ascii ''textattack/distilbert-base-uncased-ag-news''))) (\<lambda>_.
     bind (call (pipeline
             (ascii ''textattack/distilbert-base-uncased-ag-news''))) (\<lambda>category_pipe.
     return (sentiment_pipe, toxic_pipe, category_pipe)))))))"

text \<open>
  Modelled from the spec: the decorator \<open>st.cache_resource\<close> of line 17 belongs to
  Streamlit and its code is not in the repository. The specification (sections 2, 3
  and 4.1) describes it: the classifiers are "cached for the process lifetime;
  constructed at most once"; "on first call" the registry "performs potentially slow
  model-loading I/O; subsequent calls within the process return the memoized functions
  with no I/O"; the memoized functions are "initialized once, never invalidated or
  reloaded". So the cache is a cell that is empty when the process starts: a call with
  the cell empty runs the decorated function and keeps what it returns, a call with the
  cell filled returns its content and runs nothing. An exception of the decorated
  function is passed on and leaves the cell empty.
\<close>

definition cache_resource :: "'a run \<Rightarrow> 'a option \<Rightarrow> 'a run \<times> 'a option" where
  "cache_resource f cache =
     (case cache of
        Some v \<Rightarrow> (return v, Some v)
      | None \<Rightarrow>
          (case f of
             (evs, Inr v) \<Rightarrow> ((evs, Inr v), Some v)
           | (evs, Inl e) \<Rightarrow> ((evs, Inl e), None)))"

text \<open>
  Modelled from the spec: the successive calls of the registry within one process, each
  script run making one at line 32, with their outcomes in order. The cell is threaded
  from call to call. A call whose loading fails is the last one: the specification
  (sections 4.1 and 7) has the failure "fatal to the process", with no further request
  succeeding until a restart.
\<close>

fun registry_calls ::
  "nat \<Rightarrow> (str \<Rightarrow> str + classifier) \<Rightarrow> (classifier \<times> classifier \<times> classifier) option
     \<Rightarrow> (classifier \<times> classifier \<times> classifier) run list" where
  "registry_calls 0 pipeline cache = []"
| "registry_calls (Suc n) pipeline cache =
     (case cache_resource (load_pipelines pipeline) cache of
        ((evs, Inl e), cache') \<Rightarrow> [(evs, Inl e)]
      | ((evs, Inr v), cache') \<Rightarrow> (evs, Inr v) # registry_calls n pipeline cache')"

subsection \<open>Lines 25-28: the pie chart\<close>

text \<open>
  \<open>px.pie\<close> reads the two named columns of the frame and raises \<open>ValueError\<close> when
  one is not a column of it.
\<close>

definition px_pie :: "dataframe \<Rightarrow> str \<Rightarrow> str \<Rightarrow> str \<Rightarrow> rat \<Rightarrow> exn + figure" where
  "px_pie df label_col value_col ttl h =
     (case map_of df label_col of
        None \<Rightarrow> Inl (ValueError label_col)
      | Some ns \<Rightarrow>
          (case map_of df value_col of
             None \<Rightarrow> Inl (ValueError value_col)
           | Some vs \<Rightarrow>
               Inr \<lparr>fig_names = ns, fig_values = vs, fig_title = ttl, fig_hole = h,
                    fig_textinfo = [], fig_pull = []\<rparr>))"

definition plot_pie_chart :: "dataframe \<Rightarrow> str \<Rightarrow> str \<Rightarrow> str \<Rightarrow> unit run" where
  "plot_pie_chart df label_col value_col ttl =
     bind (lift (px_pie df label_col value_col ttl (4 / 10))) (\<lambda>fig.
     emit (St_plotly_chart
       (fig\<lparr>fig_textinfo := ascii ''percent+label'',
            fig_pull := replicate (len df) (2 / 100)\<rparr>)))"

subsection \<open>Lines 45-62: detecting the language and translating\<close>

definition detect_language :: "env \<Rightarrow> str \<Rightarrow> str run" where
  "detect_language E text =
     bind (emit (Call_detect text)) (\<lambda>_.
     case detect E text of
       Inr detected_lang \<Rightarrow> return detected_lang
     | Inl e \<Rightarrow>
         bind (emit (St_error
                 ([0x274C] @ ascii '' Error detecting language: '' @ e))) (\<lambda>_.
         raise StopException))"

definition translate_text :: "env \<Rightarrow> str \<Rightarrow> str \<Rightarrow> str run" where
  "translate_text E detected_lang text =
     (if detected_lang \<noteq> ascii ''en'' then
        bind (emit (Call_translate text)) (\<lambda>_.
        case translate E text of
          Inr translated \<Rightarrow>
            bind (emit (St_markdown
                    ([0x1F310] @ ascii '' **Detected Language**: `'' @ detected_lang
                     @ ascii ''` '' @ [0x2192] @ ascii '' Translated to English:''
                     @ [0xA] @ ascii ''> _'' @ translated @ ascii ''_''))) (\<lambda>_.
            return translated)
        | Inl e \<Rightarrow>
            bind (emit (St_error
                    ([0x274C] @ ascii '' Translation failed: '' @ e))) (\<lambda>_.
            raise StopException))
      else
        bind (emit (St_markdown
                ([0x2705] @ ascii '' Input is in English. No translation needed.''))) (\<lambda>_.
        return text))"

subsection \<open>Lines 64-93: running the classification\<close>

definition sentiment_branch :: "env \<Rightarrow> str \<Rightarrow> unit run" where
  "sentiment_branch E text_to_use =
     bind (emit (Call_pipe Sentiment_Analysis text_to_use)) (\<lambda>_.
     bind (call (sentiment_pipe E text_to_use)) (\<lambda>out.
     bind (lift (item_0 out)) (\<lambda>results.
     bind (lift (getitem (DataFrame results) (ascii ''score''))) (\<lambda>score.
     bind (lift (times_100_round_2 score)) (\<lambda>score'.
     let df = setitem (DataFrame results) (ascii ''score'') score';
         df = rename [(ascii ''label'', ascii ''Sentiment''),
                      (ascii ''score'', ascii ''Confidence (%)'')] df
     in
     bind (emit (St_subheader (ascii ''Sentiment Results''))) (\<lambda>_.
     bind (emit (St_dataframe df)) (\<lambda>_.
     plot_pie_chart df (ascii ''Sentiment'') (ascii ''Confidence (%)'')
       (ascii ''Sentiment Distribution''))))))))"

definition toxic_branch :: "env \<Rightarrow> str \<Rightarrow> unit run" where
  "toxic_branch E text_to_use =
     bind (emit (Call_pipe Toxic_Comment_Detection text_to_use)) (\<lambda>_.
     bind (call (toxic_pipe E text_to_use)) (\<lambda>out.
     bind (lift (item_0 out)) (\<lambda>results.
     bind (lift (getitem (DataFrame results) (ascii ''score''))) (\<lambda>score.
     bind (lift (times_100_round_2 score)) (\<lambda>score'.
     let df = setitem (DataFrame results) (ascii ''score'') score';
         df = rename [(ascii ''label'', ascii ''Toxic Label''),
                      (ascii ''score'', ascii ''Confidence (%)'')] df
     in
     bind (emit (St_subheader (ascii ''Toxicity Results''))) (\<lambda>_.
     bind (emit (St_dataframe df)) (\<lambda>_.
     plot_pie_chart df (ascii ''Toxic Label'') (ascii ''Confidence (%)'')
       (ascii ''Toxicity Confidence Breakdown''))))))))"

text \<open>
  Lines 86-88: the loop rewrites every dict of the list in place, first its label,
  then its score.
\<close>

fun relabel_and_scale :: "row list \<Rightarrow> row list" where
  "relabel_and_scale [] = []"
| "relabel_and_scale ((label, score) # results) =
     (dict_get NEWS_LABEL_MAP label label, round_2 (times_100 score))
       # relabel_and_scale results"

definition category_branch :: "env \<Rightarrow> str \<Rightarrow> unit run" where
  "category_branch E text_to_use =
     bind (emit (Call_pipe News_Category_Classification text_to_use)) (\<lambda>_.
     bind (call (category_pipe E text_to_use)) (\<lambda>out.
     bind (lift (item_0 out)) (\<lambda>results.
     let df = DataFrame (relabel_and_scale results);
         df = rename [(ascii ''label'', ascii ''Category''),
                      (ascii ''score'', ascii ''Confidence (%)'')] df
     in
     bind (emit (St_subheader (ascii ''News Category Results''))) (\<lambda>_.
     bind (emit (St_dataframe df)) (\<lambda>_.
     plot_pie_chart df (ascii ''Category'') (ascii ''Confidence (%)'')
       (ascii ''News Category Confidence''))))))"

definition classify :: "env \<Rightarrow> task \<Rightarrow> str \<Rightarrow> unit run" where
  "classify E task text_to_use =
     (case task of
        Sentiment_Analysis \<Rightarrow> sentiment_branch E text_to_use
      | Toxic_Comment_Detection \<Rightarrow> toxic_branch E text_to_use
      | News_Category_Classification \<Rightarrow> category_branch E text_to_use)"

subsection \<open>Lines 44-95: one press of the Analyze button\<close>

text \<open>
  \<open>button\<close> is what \<open>st.button\<close> returns, \<open>task\<close> and \<open>text\<close> are the values of
  the select box and of the text area. A non-empty string is true in a condition. The
  lines before, 31 to 42, fetch the three pipelines and draw the page header and the
  widgets, the same on every run.
\<close>

definition app :: "env \<Rightarrow> bool \<Rightarrow> task \<Rightarrow> str \<Rightarrow> unit run" where
  "app E button task text =
     (if button \<and> strip text \<noteq> [] then
        bind (detect_language E text) (\<lambda>detected_lang.
        bind (translate_text E detected_lang text) (\<lambda>text_to_use.
        classify E task text_to_use))
      else
        emit (St_info (ascii ''Enter your text and click **Analyze** to get results.'')))"

section \<open>Reading a run\<close>

text \<open>
  What the theorems say about a run is read off its events: the calls of the
  translator and of the pipelines, the frames given to \<open>st.dataframe\<close> and the
  figures given to \<open>st.plotly_chart\<close>.
\<close>

fun is_translate :: "event \<Rightarrow> bool" where
  "is_translate (Call_translate t) = True"
| "is_translate ev = False"

fun is_pipe :: "event \<Rightarrow> bool" where
  "is_pipe (Call_pipe k t) = True"
| "is_pipe ev = False"

fun tables :: "event list \<Rightarrow> dataframe list" where
  "tables [] = []"
| "tables (St_dataframe df # evs) = df # tables evs"
| "tables (ev # evs) = tables evs"

fun charts :: "event list \<Rightarrow> figure list" where
  "charts [] = []"
| "charts (St_plotly_chart fig # evs) = fig # charts evs"
| "charts (ev # evs) = charts evs"

text \<open>The pipeline that the branch of a task calls (lines 67, 76 and 85).\<close>

fun pipe_of :: "env \<Rightarrow> task \<Rightarrow> str \<Rightarrow> str + row list list" where
  "pipe_of E Sentiment_Analysis = sentiment_pipe E"
| "pipe_of E Toxic_Comment_Detection = toxic_pipe E"
| "pipe_of E News_Category_Classification = category_pipe E"

text \<open>The name that the branch of a task gives to the label column (lines 70, 79, 90).\<close>

fun label_column :: "task \<Rightarrow> str" where
  "label_column Sentiment_Analysis = ascii ''Sentiment''"
| "label_column Toxic_Comment_Detection = ascii ''Toxic Label''"
| "label_column News_Category_Classification = ascii ''Category''"

text \<open>
  The confidence that the branch of a task computes from one score: lines 69 and 78
  for sentiment and toxicity, line 88 for news.
\<close>

fun shown_confidence :: "task \<Rightarrow> float \<Rightarrow> float" where
  "shown_confidence Sentiment_Analysis p = around_2 (times_100 p)"
| "shown_confidence Toxic_Comment_Detection p = around_2 (times_100 p)"
| "shown_confidence News_Category_Classification p = round_2 (times_100 p)"

text \<open>A score that is a probability: a finite float between 0 and 1.\<close>

fun probability :: "float \<Rightarrow> bool" where
  "probability (Finite p) \<longleftrightarrow> 0 \<le> p \<and> p \<le> 1"
| "probability Non_finite \<longleftrightarrow> False"

text \<open>The numbers shown in the tables of a run, in the order they are shown.\<close>

fun nums :: "series \<Rightarrow> float list" where
  "nums (Nums xs) = xs"
| "nums (Strs xs) = []"

definition confidences :: "event list \<Rightarrow> float list" where
  "confidences evs = concat (map (\<lambda>df. concat (map (\<lambda>(c, s). nums s) df)) (tables evs))"

text \<open>The numbers given to the charts of a run.\<close>

definition chart_values :: "event list \<Rightarrow> float list" where
  "chart_values evs = concat (map (\<lambda>fig. nums (fig_values fig)) (charts evs))"

section \<open>Example services\<close>

text \<open>
  Services for concrete runs, after the scenarios of the specification: a Spanish
  sentence that translates, a French word whose translation fails, digits that the
  detector rejects, an English greeting that the detector takes for Finnish and the
  translator returns as it is, everything else English; and classifiers with fixed
  answers. The scores are floats: \<open>1570855550026829 / 2^58\<close> is the float that the
  literal \<open>0.00545\<close> denotes. The news classifier answers with an unmapped code among
  the known ones.
\<close>

definition example_env :: env where
  "example_env =
     \<lparr>detect = (\<lambda>text.
         if text = ascii ''Me encanta esto!'' then Inr (ascii ''es'')
         else if text = ascii ''Bonjour'' then Inr (ascii ''fr'')
         else if text = ascii ''Hi there'' then Inr (ascii ''fi'')
         else if text = ascii ''12345'' then Inl (ascii ''No features in text.'')
         else Inr (ascii ''en'')),
      translate = (\<lambda>text.
         if text = ascii ''Me encanta esto!'' then Inr (ascii ''I love this!'')
         else if text = ascii ''Hi there'' then Inr (ascii ''Hi there'')
         else Inl (ascii ''Request exception'')),
      sentiment_pipe = (\<lambda>text.
         Inr [[(ascii ''NEGATIVE'', Finite (1 / 8)), (ascii ''POSITIVE'', Finite (7 / 8))]]),
      toxic_pipe = (\<lambda>text.
         Inr [[(ascii ''toxic'', Finite (1570855550026829 / 2 ^ 58))]]),
      category_pipe = (\<lambda>text.
         Inr [[(ascii ''LABEL_2'', Finite (3 / 4)), (ascii ''LABEL_9'', Finite (1 / 16)),
               (ascii ''LABEL_0'', Finite 0)]])\<rparr>"

text \<open>A constructor that hands out the example classifiers, whatever the model name.\<close>

definition example_pipeline :: "str \<Rightarrow> str + classifier" where
  "example_pipeline name =
     (if name = ascii ''distilbert-base-uncased-finetuned-sst-2-english''
      then Inr (sentiment_pipe example_env)
      else if name = ascii ''unitary/toxic-bert'' then Inr (toxic_pipe example_env)
      else Inr (category_pipe example_env))"

section \<open>Facts about the values\<close>

lemma ascii_eq_iff [simp]: "ascii a = ascii b \<longleftrightarrow> a = b"
  by (simp add: ascii_def inj_map_eq_map inj_of_char)

lemma strip_all_space: "(\<forall>c\<in>set s. isspace c) \<Longrightarrow> strip s = []"
proof -
  assume "\<forall>c\<in>set s. isspace c"
  then have h: "dropWhile isspace s = []" by simp
  show ?thesis unfolding strip_def h by simp
qed

lemma NEWS_LABEL_MAP_get:
  "dict_get NEWS_LABEL_MAP l l =
     (if l = ascii ''LABEL_0'' then ascii ''World''
      else if l = ascii ''LABEL_1'' then ascii ''Sports''
      else if l = ascii ''LABEL_2'' then ascii ''Business''
      else if l = ascii ''LABEL_3'' then ascii ''Sci/Tech''
      else l)"
  by (simp add: dict_get_def NEWS_LABEL_MAP_def)

subsection \<open>Rounding to the nearest float\<close>

lemma round_half_even_near: "\<bar>of_int (round_half_even x) - x\<bar> \<le> 1 / 2"
proof -
  have "of_int \<lfloor>x\<rfloor> \<le> x" "x < of_int \<lfloor>x\<rfloor> + 1" by linarith+
  then show ?thesis
    by (auto simp add: round_half_even_def Let_def)
qed

lemma round_half_even_ge_int: "of_int n \<le> x \<Longrightarrow> n \<le> round_half_even x"
proof -
  assume "of_int n \<le> x"
  then have "n \<le> \<lfloor>x\<rfloor>" by (simp add: le_floor_iff)
  then show ?thesis by (auto simp add: round_half_even_def Let_def)
qed

lemma round_half_even_le_int: "x \<le> of_int n \<Longrightarrow> round_half_even x \<le> n"
proof -
  assume h: "x \<le> of_int n"
  have a: "\<bar>of_int (round_half_even x) - x\<bar> \<le> 1 / 2" by (rule round_half_even_near)
  have "of_int (round_half_even x) \<le> (of_int n :: rat) + 1 / 2" using a h by linarith
  then have "of_int (round_half_even x) < (of_int (n + 1) :: rat)" by simp
  then have "round_half_even x < n + 1" by (simp only: of_int_less_iff)
  then show ?thesis by simp
qed

lemma round_half_even_of_int [simp]: "round_half_even (of_int n) = n"
  by (simp add: round_half_even_def)

lemma ulp_exponent_from_ge: "e \<le> ulp_exponent_from e x"
proof (induction e x rule: ulp_exponent_from.induct)
  case (1 e x)
  show ?case
  proof (cases "\<bar>x\<bar> < 2 ^ 53 * 2 powi e")
    case True
    then show ?thesis by (simp add: ulp_exponent_from.simps [of e x])
  next
    case False
    then have "e + 1 \<le> ulp_exponent_from (e + 1) x" using "1.IH" by simp
    then show ?thesis using False by (simp add: ulp_exponent_from.simps [of e x])
  qed
qed

lemma ulp_exponent_from_above: "\<bar>x\<bar> < 2 ^ 53 * 2 powi (ulp_exponent_from e x)"
proof (induction e x rule: ulp_exponent_from.induct)
  case (1 e x)
  show ?case
  proof (cases "\<bar>x\<bar> < 2 ^ 53 * 2 powi e")
    case True
    then show ?thesis by (simp add: ulp_exponent_from.simps [of e x])
  next
    case False
    then show ?thesis using "1.IH" by (simp add: ulp_exponent_from.simps [of e x])
  qed
qed

lemma ulp_exponent_from_below:
  "ulp_exponent_from e x = e \<or> 2 ^ 52 * 2 powi (ulp_exponent_from e x) \<le> \<bar>x\<bar>"
proof (induction e x rule: ulp_exponent_from.induct)
  case (1 e x)
  show ?case
  proof (cases "\<bar>x\<bar> < 2 ^ 53 * 2 powi e")
    case True
    then show ?thesis by (simp add: ulp_exponent_from.simps [of e x])
  next
    case False
    have eq: "ulp_exponent_from e x = ulp_exponent_from (e + 1) x"
      using False by (simp add: ulp_exponent_from.simps [of e x])
    from "1.IH" [OF False] show ?thesis
    proof
      assume h: "ulp_exponent_from (e + 1) x = e + 1"
      have "(2::rat) ^ 52 * 2 powi (e + 1) = 2 ^ 53 * 2 powi e"
        by (simp add: power_int_add_1)
      then show ?thesis using False h eq by simp
    next
      assume "2 ^ 52 * 2 powi ulp_exponent_from (e + 1) x \<le> \<bar>x\<bar>"
      then show ?thesis using eq by simp
    qed
  qed
qed

lemma ulp_exponent_from_le:
  "e \<le> k \<Longrightarrow> \<bar>x\<bar> < 2 ^ 53 * 2 powi k \<Longrightarrow> ulp_exponent_from e x \<le> k"
proof (induction e x rule: ulp_exponent_from.induct)
  case (1 e x)
  show ?case
  proof (cases "\<bar>x\<bar> < 2 ^ 53 * 2 powi e")
    case True
    then show ?thesis using "1.prems" by (simp add: ulp_exponent_from.simps [of e x])
  next
    case False
    have "e \<noteq> k" using False "1.prems" by auto
    then have "e + 1 \<le> k" using "1.prems" by simp
    then have "ulp_exponent_from (e + 1) x \<le> k" using "1.IH" [OF False] "1.prems" by simp
    then show ?thesis using False by (simp add: ulp_exponent_from.simps [of e x])
  qed
qed

lemma ulp_exponent_from_eq:
  assumes "e \<le> k" "\<bar>x\<bar> < 2 ^ 53 * 2 powi k" "k = e \<or> 2 ^ 52 * 2 powi k \<le> \<bar>x\<bar>"
  shows "ulp_exponent_from e x = k"
proof (rule antisym)
  show "ulp_exponent_from e x \<le> k" using assms(1,2) by (rule ulp_exponent_from_le)
  show "k \<le> ulp_exponent_from e x"
  proof (rule ccontr)
    assume "\<not> k \<le> ulp_exponent_from e x"
    then have lt: "ulp_exponent_from e x < k" by simp
    then have "k \<noteq> e" using ulp_exponent_from_ge [of e x] by simp
    then have lo: "2 ^ 52 * 2 powi k \<le> \<bar>x\<bar>" using assms(3) by simp
    have "ulp_exponent_from e x + 1 \<le> k" using lt by simp
    then have "(2::rat) powi (ulp_exponent_from e x + 1) \<le> 2 powi k"
      by (intro power_int_increasing) simp_all
    then have "(2::rat) ^ 53 * 2 powi (ulp_exponent_from e x) \<le> 2 ^ 52 * 2 powi k"
      by (simp add: power_int_add_1)
    then show False using lo ulp_exponent_from_above [of x e] by simp
  qed
qed

lemma fl_eq:
  assumes "- 1074 \<le> k" "\<bar>x\<bar> < 2 ^ 53 * 2 powi k" "k = - 1074 \<or> 2 ^ 52 * 2 powi k \<le> \<bar>x\<bar>"
  shows "fl x = of_int (round_half_even (x / 2 powi k)) * 2 powi k"
  using ulp_exponent_from_eq [OF assms] by (simp add: fl_def)

lemma fl_error:
  assumes "- 1074 \<le> k" "\<bar>x\<bar> < 2 ^ 53 * 2 powi k"
  shows "\<bar>fl x - x\<bar> \<le> 2 powi k / 2"
proof -
  define e where "e = ulp_exponent_from (- 1074) x"
  have ek: "e \<le> k" unfolding e_def using assms by (rule ulp_exponent_from_le)
  have pos: "(0::rat) < 2 powi e" by simp
  have "\<bar>of_int (round_half_even (x / 2 powi e)) - x / 2 powi e\<bar> \<le> 1 / 2"
    by (rule round_half_even_near)
  then have "\<bar>of_int (round_half_even (x / 2 powi e)) - x / 2 powi e\<bar> * 2 powi e
      \<le> 1 / 2 * 2 powi e"
    using pos by (intro mult_right_mono) simp_all
  moreover have "\<bar>of_int (round_half_even (x / 2 powi e)) - x / 2 powi e\<bar> * 2 powi e
      = \<bar>fl x - x\<bar>"
  proof -
    have "\<bar>of_int (round_half_even (x / 2 powi e)) - x / 2 powi e\<bar> * 2 powi e
      = \<bar>(of_int (round_half_even (x / 2 powi e)) - x / 2 powi e) * 2 powi e\<bar>"
      by (simp add: abs_mult)
    also have "(of_int (round_half_even (x / 2 powi e)) - x / 2 powi e) * 2 powi e
      = fl x - x"
      by (simp add: fl_def e_def [symmetric] left_diff_distrib)
    finally show ?thesis .
  qed
  moreover have "(2::rat) powi e \<le> 2 powi k" using ek by (intro power_int_increasing) simp_all
  ultimately show ?thesis by simp
qed

lemma fl_nonneg: "0 \<le> x \<Longrightarrow> 0 \<le> fl x"
proof -
  assume "0 \<le> x"
  then have "of_int 0 \<le> x / 2 powi (ulp_exponent_from (- 1074) x)" by simp
  then have "0 \<le> round_half_even (x / 2 powi (ulp_exponent_from (- 1074) x))"
    by (rule round_half_even_ge_int)
  then show ?thesis by (simp add: fl_def Let_def)
qed

lemma fl_le_int:
  assumes "\<bar>x\<bar> < 2 ^ 53" "x \<le> of_int r"
  shows "fl x \<le> of_int r"
proof -
  define e where "e = ulp_exponent_from (- 1074) x"
  have "e \<le> 0" unfolding e_def using assms(1) by (intro ulp_exponent_from_le) simp_all
  define n where "n = nat (- e)"
  have e: "e = - int n" using \<open>e \<le> 0\<close> by (simp add: n_def)
  have p: "(2::rat) powi e = 1 / 2 ^ n" by (simp add: e power_int_minus_divide)
  have "x / 2 powi e = x * 2 ^ n" by (simp add: p)
  also have "\<dots> \<le> of_int r * 2 ^ n" using assms(2) by simp
  also have "\<dots> = of_int (r * 2 ^ n)" by simp
  finally have "round_half_even (x / 2 powi e) \<le> r * 2 ^ n" by (rule round_half_even_le_int)
  then have "(of_int (round_half_even (x / 2 powi e)) :: rat) \<le> of_int (r * 2 ^ n)"
    by (simp only: of_int_le_iff)
  then have "(of_int (round_half_even (x / 2 powi e)) :: rat) * 2 powi e
      \<le> of_int (r * 2 ^ n) * 2 powi e"
    by (intro mult_right_mono) simp_all
  then show ?thesis by (simp add: fl_def e_def [symmetric] p)
qed

lemma fl_exact:
  assumes "\<bar>m\<bar> < 2 ^ 53" "- 1074 \<le> j"
  shows "fl (of_int m * 2 powi j) = of_int m * 2 powi j"
proof -
  define x :: rat where "x = of_int m * 2 powi j"
  define e where "e = ulp_exponent_from (- 1074) x"
  have "\<bar>x\<bar> = of_int \<bar>m\<bar> * 2 powi j" by (simp add: x_def abs_mult)
  also have "\<dots> < 2 ^ 53 * 2 powi j"
  proof -
    have "(of_int \<bar>m\<bar> :: rat) < of_int (2 ^ 53)" using assms(1) by (simp only: of_int_less_iff)
    then show ?thesis by simp
  qed
  finally have "e \<le> j" unfolding e_def using assms(2) by (intro ulp_exponent_from_le)
  define n where "n = nat (j - e)"
  have j: "j = e + int n" using \<open>e \<le> j\<close> by (simp add: n_def)
  have "(2::rat) powi j = 2 powi e * 2 ^ n" by (simp add: j power_int_add)
  then have q: "x / 2 powi e = of_int (m * 2 ^ n)" by (simp add: x_def)
  have "fl x = of_int (m * 2 ^ n) * 2 powi e"
    by (simp add: fl_def e_def [symmetric] q del: of_int_mult of_int_power)
  also have "\<dots> = x" using \<open>(2::rat) powi j = 2 powi e * 2 ^ n\<close> by (simp add: x_def)
  finally show ?thesis by (simp add: x_def)
qed

lemma fl_of_int: "\<bar>m\<bar> < 2 ^ 53 \<Longrightarrow> fl (of_int m) = of_int m"
  using fl_exact [of m 0] by simp

lemma fl_dyadic: "\<bar>m\<bar> < 2 ^ 53 \<Longrightarrow> n \<le> 1074 \<Longrightarrow> fl (of_int m / 2 ^ n) = of_int m / 2 ^ n"
  using fl_exact [of m "- int n"] by (simp add: power_int_minus_divide)

lemma fl_upto_100:
  assumes "0 \<le> x" "x \<le> 100"
  shows "0 \<le> fl x" "fl x \<le> 100" "\<bar>fl x - x\<bar> \<le> 1 / 2 ^ 47" "float_of x = Finite (fl x)"
proof -
  show lo: "0 \<le> fl x" using assms(1) by (rule fl_nonneg)
  have "fl x \<le> of_int 100" using assms by (intro fl_le_int) simp_all
  then show hi: "fl x \<le> 100" by simp
  have "\<bar>fl x - x\<bar> \<le> 2 powi (- 46) / 2" using assms by (intro fl_error) simp_all
  then show "\<bar>fl x - x\<bar> \<le> 1 / 2 ^ 47" by (simp add: power_int_minus_divide)
  show "float_of x = Finite (fl x)" using lo hi by (simp add: float_of_def)
qed

lemma fl_upto_10000:
  assumes "0 \<le> x" "x \<le> 10000"
  shows "0 \<le> fl x" "fl x \<le> 10000" "\<bar>fl x - x\<bar> \<le> 1 / 2 ^ 40" "float_of x = Finite (fl x)"
proof -
  show lo: "0 \<le> fl x" using assms(1) by (rule fl_nonneg)
  have "fl x \<le> of_int 10000" using assms by (intro fl_le_int) simp_all
  then show hi: "fl x \<le> 10000" by simp
  have "\<bar>fl x - x\<bar> \<le> 2 powi (- 39) / 2" using assms by (intro fl_error) simp_all
  then show "\<bar>fl x - x\<bar> \<le> 1 / 2 ^ 40" by (simp add: power_int_minus_divide)
  show "float_of x = Finite (fl x)" using lo hi by (simp add: float_of_def)
qed

lemma hundredths:
  assumes "0 \<le> y" "y \<le> 10000"
  shows "0 \<le> round_half_even y" "round_half_even y \<le> 10000"
    "\<bar>of_int (round_half_even y) / 100 - y / 100\<bar> \<le> 1 / 200"
proof -
  have "of_int 0 \<le> y" using assms by simp
  then show "0 \<le> round_half_even y" by (rule round_half_even_ge_int)
  have "y \<le> of_int 10000" using assms by simp
  then show "round_half_even y \<le> 10000" by (rule round_half_even_le_int)
  have "\<bar>of_int (round_half_even y) - y\<bar> \<le> 1 / 2" by (rule round_half_even_near)
  then show "\<bar>of_int (round_half_even y) / 100 - y / 100\<bar> \<le> 1 / 200"
    by (simp add: abs_le_iff field_simps)
qed

lemma abs_diff_chain3:
  fixes a b c d :: rat
  assumes "\<bar>a - b\<bar> \<le> e1" "\<bar>b - c\<bar> \<le> e2" "\<bar>c - d\<bar> \<le> e3"
  shows "\<bar>a - d\<bar> \<le> e1 + e2 + e3"
  using assms by linarith

lemma abs_diff_chain4:
  fixes a b c d e :: rat
  assumes "\<bar>a - b\<bar> \<le> e1" "\<bar>b - c\<bar> \<le> e2" "\<bar>c - d\<bar> \<le> e3" "\<bar>d - e\<bar> \<le> e4"
  shows "\<bar>a - e\<bar> \<le> e1 + e2 + e3 + e4"
  using assms by linarith

lemma round_2_percent:
  assumes "0 \<le> p" "p \<le> 1"
  shows "\<exists>n c. round_2 (times_100 (Finite p)) = Finite c \<and> c = fl (of_int n / 100)
     \<and> 0 \<le> n \<and> n \<le> 10000 \<and> 0 \<le> c \<and> c \<le> 100 \<and> \<bar>c - p * 100\<bar> \<le> 1 / 200 + 1 / 2 ^ 44"
proof -
  define x where "x = fl (p * 100)"
  define n where "n = round_half_even (x * 100)"
  define c where "c = fl (of_int n / 100)"
  have p: "0 \<le> p * 100" "p * 100 \<le> 100" using assms by simp_all
  note x = fl_upto_100 [OF p, folded x_def]
  have y: "0 \<le> x * 100" "x * 100 \<le> 10000" using x(1,2) by simp_all
  note n = hundredths [OF y, folded n_def]
  have q: "0 \<le> (of_int n :: rat) / 100" "(of_int n :: rat) / 100 \<le> 100"
    using n(1,2) by simp_all
  note c = fl_upto_100 [OF q, folded c_def]
  have "round_2 (times_100 (Finite p)) = Finite c"
    by (simp add: x(4) c(4) n_def [symmetric])
  moreover have "\<bar>c - p * 100\<bar> \<le> 1 / 200 + 1 / 2 ^ 44"
  proof -
    have "x * 100 / 100 = x" by simp
    then have "\<bar>of_int n / 100 - x\<bar> \<le> 1 / 200" using n(3) by simp
    from abs_diff_chain3 [OF c(3) this x(3)]
    have "\<bar>c - p * 100\<bar> \<le> 1 / 2 ^ 47 + 1 / 200 + 1 / 2 ^ 47" .
    also have "\<dots> \<le> 1 / 200 + 1 / 2 ^ 44" by simp
    finally show ?thesis .
  qed
  ultimately show ?thesis using c(1,2) n(1,2) c_def by blast
qed

lemma around_2_percent:
  assumes "0 \<le> p" "p \<le> 1"
  shows "\<exists>n c. around_2 (times_100 (Finite p)) = Finite c \<and> c = fl (of_int n / 100)
     \<and> 0 \<le> n \<and> n \<le> 10000 \<and> 0 \<le> c \<and> c \<le> 100 \<and> \<bar>c - p * 100\<bar> \<le> 1 / 200 + 1 / 2 ^ 44"
proof -
  define x where "x = fl (p * 100)"
  define y where "y = fl (x * 100)"
  define n where "n = round_half_even y"
  define c where "c = fl (of_int n / 100)"
  have p: "0 \<le> p * 100" "p * 100 \<le> 100" using assms by simp_all
  note x = fl_upto_100 [OF p, folded x_def]
  have x100: "0 \<le> x * 100" "x * 100 \<le> 10000" using x(1,2) by simp_all
  note y = fl_upto_10000 [OF x100, folded y_def]
  note n = hundredths [OF y(1,2), folded n_def]
  have q: "0 \<le> (of_int n :: rat) / 100" "(of_int n :: rat) / 100 \<le> 100"
    using n(1,2) by simp_all
  note c = fl_upto_100 [OF q, folded c_def]
  have "around_2 (times_100 (Finite p)) = Finite c"
    by (simp add: x(4) y(4) c(4) n_def [symmetric])
  moreover have "\<bar>c - p * 100\<bar> \<le> 1 / 200 + 1 / 2 ^ 44"
  proof -
    have "\<bar>y - x * 100\<bar> / 100 \<le> 1 / 2 ^ 40 / 100"
      using y(3) by (intro divide_right_mono) simp_all
    moreover have "\<bar>y - x * 100\<bar> / 100 = \<bar>y / 100 - x\<bar>"
      by (simp add: abs_if field_simps)
    ultimately have "\<bar>y / 100 - x\<bar> \<le> 1 / 2 ^ 40 / 100" by simp
    from abs_diff_chain4 [OF c(3) n(3) this x(3)]
    have "\<bar>c - p * 100\<bar> \<le> 1 / 2 ^ 47 + 1 / 200 + 1 / 2 ^ 40 / 100 + 1 / 2 ^ 47" .
    also have "\<dots> \<le> 1 / 200 + 1 / 2 ^ 44" by simp
    finally show ?thesis .
  qed
  ultimately show ?thesis using c(1,2) n(1,2) c_def by blast
qed

lemma shown_confidence_percent:
  assumes "0 \<le> p" "p \<le> 1"
  shows "\<exists>n c. shown_confidence task (Finite p) = Finite c \<and> c = fl (of_int n / 100)
     \<and> 0 \<le> n \<and> n \<le> 10000 \<and> 0 \<le> c \<and> c \<le> 100 \<and> \<bar>c - p * 100\<bar> \<le> 1 / 200 + 1 / 2 ^ 44"
  using round_2_percent [OF assms] around_2_percent [OF assms] by (cases task) simp_all

subsection \<open>The two rounding routines at work\<close>

text \<open>
  The float that the literal \<open>0.00545\<close> denotes is \<open>1570855550026829 / 2^58\<close>, a
  little less than \<open>0.00545\<close>. Its product with 100 is rounded up to the float next to
  \<open>0.545\<close>, and both routines then give the float that \<open>0.55\<close> denotes.
\<close>

lemma fl_0_00545_times_100: "fl (1570855550026829 / 2 ^ 58 * 100) = 4908923593833841 / 2 ^ 53"
proof -
  have r: "round_half_even (1570855550026829 / 2 ^ 58 * 100 / 2 powi (- 53)) = 4908923593833841"
    by code_simp
  have "fl (1570855550026829 / 2 ^ 58 * 100) =
      of_int (round_half_even (1570855550026829 / 2 ^ 58 * 100 / 2 powi (- 53))) * 2 powi (- 53)"
    by (rule fl_eq) (simp_all add: power_int_minus_divide)
  also have "\<dots> = 4908923593833841 / 2 ^ 53"
    unfolding r by (simp add: power_int_minus_divide)
  finally show ?thesis .
qed

lemma fl_0_545_times_100: "fl (4908923593833841 / 2 ^ 53 * 100) = 7670193115365377 / 2 ^ 47"
proof -
  have r: "round_half_even (4908923593833841 / 2 ^ 53 * 100 / 2 powi (- 47)) = 7670193115365377"
    by code_simp
  have "fl (4908923593833841 / 2 ^ 53 * 100) =
      of_int (round_half_even (4908923593833841 / 2 ^ 53 * 100 / 2 powi (- 47))) * 2 powi (- 47)"
    by (rule fl_eq) (simp_all add: power_int_minus_divide)
  also have "\<dots> = 7670193115365377 / 2 ^ 47"
    unfolding r by (simp add: power_int_minus_divide)
  finally show ?thesis .
qed

lemma fl_0_55: "fl (55 / 100) = 2476979795053773 / 2 ^ 52"
proof -
  have r: "round_half_even (55 / 100 / 2 powi (- 53)) = 4953959590107546"
    by code_simp
  have "fl (55 / 100) =
      of_int (round_half_even (55 / 100 / 2 powi (- 53))) * 2 powi (- 53)"
    by (rule fl_eq) (simp_all add: power_int_minus_divide)
  also have "\<dots> = 2476979795053773 / 2 ^ 52"
    unfolding r by (simp add: power_int_minus_divide)
  finally show ?thesis .
qed

lemma round_half_even_examples:
  "round_half_even (7670193115365377 / 2 ^ 47) = 55"
  "round_half_even (4908923593833841 / 2 ^ 53 * 100) = 55"
  "round_half_even (1570855550026829 / 2 ^ 58 * 100 * 100) = 54"
  "round_half_even (5764607523034235 / 2 ^ 60 * 100) = 1"
  "round_half_even (1 / 2) = 0"
  by code_simp+

lemma float_of_0_00545_times_100:
  "float_of (1570855550026829 / 2 ^ 58 * 100) = Finite (4908923593833841 / 2 ^ 53)"
  unfolding float_of_def fl_0_00545_times_100 by simp

lemma float_of_0_545_times_100:
  "float_of (4908923593833841 / 2 ^ 53 * 100) = Finite (7670193115365377 / 2 ^ 47)"
  unfolding float_of_def fl_0_545_times_100 by simp

lemma float_of_0_55: "float_of (of_int 55 / 100) = Finite (2476979795053773 / 2 ^ 52)"
  unfolding float_of_def of_int_numeral fl_0_55 by simp

lemma around_2_0_00545:
  "around_2 (times_100 (Finite (1570855550026829 / 2 ^ 58))) =
     Finite (2476979795053773 / 2 ^ 52)"
  by (simp only: times_100.simps around_2.simps float_of_0_00545_times_100
      float_of_0_545_times_100 float_of_0_55 round_half_even_examples float.case)

lemma round_2_0_00545:
  "round_2 (times_100 (Finite (1570855550026829 / 2 ^ 58))) =
     Finite (2476979795053773 / 2 ^ 52)"
  by (simp only: times_100.simps round_2.simps float_of_0_00545_times_100 float_of_0_55
      round_half_even_examples)

text \<open>
  The float that \<open>5e-05\<close> denotes is \<open>7378697629483821 / 2^67\<close>. Its product with
  100 is a float a little above \<open>0.005\<close>: the built-in \<open>round\<close> sees that and gives
  the float of \<open>0.01\<close>, while the second product of numpy's \<open>around\<close> is rounded to
  exactly \<open>0.5\<close>, a tie that goes to \<open>0\<close>.
\<close>

lemma fl_5e_05_times_100: "fl (7378697629483821 / 2 ^ 67 * 100) = 5764607523034235 / 2 ^ 60"
proof -
  have r: "round_half_even (7378697629483821 / 2 ^ 67 * 100 / 2 powi (- 60)) = 5764607523034235"
    by code_simp
  have "fl (7378697629483821 / 2 ^ 67 * 100) =
      of_int (round_half_even (7378697629483821 / 2 ^ 67 * 100 / 2 powi (- 60))) * 2 powi (- 60)"
    by (rule fl_eq) (simp_all add: power_int_minus_divide)
  also have "\<dots> = 5764607523034235 / 2 ^ 60"
    unfolding r by (simp add: power_int_minus_divide)
  finally show ?thesis .
qed

lemma fl_0_005_times_100: "fl (5764607523034235 / 2 ^ 60 * 100) = 1 / 2"
proof -
  have r: "round_half_even (5764607523034235 / 2 ^ 60 * 100 / 2 powi (- 53)) = 4503599627370496"
    by code_simp
  have "fl (5764607523034235 / 2 ^ 60 * 100) =
      of_int (round_half_even (5764607523034235 / 2 ^ 60 * 100 / 2 powi (- 53))) * 2 powi (- 53)"
    by (rule fl_eq) (simp_all add: power_int_minus_divide)
  also have "\<dots> = 1 / 2"
    unfolding r by (simp add: power_int_minus_divide)
  finally show ?thesis .
qed

lemma fl_0_01: "fl (1 / 100) = 5764607523034235 / 2 ^ 59"
proof -
  have r: "round_half_even (1 / 100 / 2 powi (- 59)) = 5764607523034235"
    by code_simp
  have "fl (1 / 100) =
      of_int (round_half_even (1 / 100 / 2 powi (- 59))) * 2 powi (- 59)"
    by (rule fl_eq) (simp_all add: power_int_minus_divide)
  also have "\<dots> = 5764607523034235 / 2 ^ 59"
    unfolding r by (simp add: power_int_minus_divide)
  finally show ?thesis .
qed

lemma fl_0: "fl 0 = 0"
  using fl_of_int [of 0] by simp

lemma round_2_5e_05:
  "round_2 (times_100 (Finite (7378697629483821 / 2 ^ 67))) =
     Finite (5764607523034235 / 2 ^ 59)"
proof -
  have a: "float_of (7378697629483821 / 2 ^ 67 * 100) = Finite (5764607523034235 / 2 ^ 60)"
    unfolding float_of_def fl_5e_05_times_100 by simp
  have b: "float_of (of_int 1 / 100) = Finite (5764607523034235 / 2 ^ 59)"
    unfolding float_of_def of_int_1 fl_0_01 by simp
  show ?thesis
    by (simp only: times_100.simps round_2.simps a b round_half_even_examples)
qed

lemma around_2_5e_05:
  "around_2 (times_100 (Finite (7378697629483821 / 2 ^ 67))) = Finite 0"
proof -
  have a: "float_of (7378697629483821 / 2 ^ 67 * 100) = Finite (5764607523034235 / 2 ^ 60)"
    unfolding float_of_def fl_5e_05_times_100 by simp
  have b: "float_of (5764607523034235 / 2 ^ 60 * 100) = Finite (1 / 2)"
    unfolding float_of_def fl_0_005_times_100 by simp
  have c: "float_of (of_int 0 / 100) = Finite 0"
    by (simp add: float_of_def fl_0)
  show ?thesis
    by (simp only: times_100.simps around_2.simps a b c round_half_even_examples float.case)
qed

text \<open>Scores whose percentage is a float itself.\<close>

lemma float_of_exact:
  "\<bar>m\<bar> < 2 ^ 53 \<Longrightarrow> n \<le> 1074 \<Longrightarrow> float_of (of_int m / 2 ^ n) = Finite (of_int m / 2 ^ n)"
proof -
  assume m: "\<bar>m\<bar> < 2 ^ 53" and n: "n \<le> 1074"
  have "\<bar>of_int m / 2 ^ n :: rat\<bar> \<le> \<bar>of_int m\<bar>"
    by (simp add: abs_divide divide_le_eq_1 field_simps mult_le_cancel_left1)
  also have "\<dots> = of_int \<bar>m\<bar>" by simp
  also have "\<dots> < of_int (2 ^ 53)" using m by (simp only: of_int_less_iff)
  also have "\<dots> \<le> (2 ^ 1024 :: rat)" by simp
  finally show ?thesis using m n by (simp add: float_of_def fl_dyadic)
qed

lemma round_half_even_numeral: "round_half_even (numeral w) = numeral w"
  "round_half_even 0 = 0"
  using round_half_even_of_int [of "numeral w"] round_half_even_of_int [of 0] by simp_all

lemma example_floats:
  "float_of 75 = Finite 75" "float_of (25 / 4) = Finite (25 / 4)"
  "float_of 0 = Finite 0" "float_of (25 / 2) = Finite (25 / 2)"
  "float_of (175 / 2) = Finite (175 / 2)" "float_of 1250 = Finite 1250"
  "float_of 8750 = Finite 8750"
  using float_of_exact [of 75 0] float_of_exact [of 25 2] float_of_exact [of 0 0]
    float_of_exact [of 25 1] float_of_exact [of 175 1] float_of_exact [of 1250 0]
    float_of_exact [of 8750 0]
  by simp_all

lemma example_confidences:
  "round_2 (times_100 (Finite (3 / 4))) = Finite 75"
  "round_2 (times_100 (Finite (1 / 16))) = Finite (25 / 4)"
  "round_2 (times_100 (Finite 0)) = Finite 0"
  "around_2 (times_100 (Finite (1 / 8))) = Finite (25 / 2)"
  "around_2 (times_100 (Finite (7 / 8))) = Finite (175 / 2)"
  by (simp_all add: example_floats round_half_even_numeral)

section \<open>Facts about the script\<close>

lemmas run_defs = bind_def emit_def lift_def return_def raise_def call_def

lemmas branch_defs = classify_def sentiment_branch_def toxic_branch_def category_branch_def
  plot_pie_chart_def px_pie_def DataFrame_def getitem_def rename_def dict_get_def
  Let_def

lemma tables_append: "tables (xs @ ys) = tables xs @ tables ys"
  by (induction xs rule: tables.induct) simp_all

lemma charts_append: "charts (xs @ ys) = charts xs @ charts ys"
  by (induction xs rule: charts.induct) simp_all

lemma shown_confidence_funs:
  "shown_confidence Sentiment_Analysis = (\<lambda>p. around_2 (times_100 p))"
  "shown_confidence Toxic_Comment_Detection = (\<lambda>p. around_2 (times_100 p))"
  "shown_confidence News_Category_Classification = (\<lambda>p. round_2 (times_100 p))"
  by (rule ext, simp)+

subsection \<open>The loop of the news branch\<close>

lemma map_fst_relabel_and_scale:
  "map fst (relabel_and_scale rs) = map (\<lambda>l. dict_get NEWS_LABEL_MAP l l) (map fst rs)"
  by (induction rs rule: relabel_and_scale.induct) simp_all

lemma map_snd_relabel_and_scale:
  "map snd (relabel_and_scale rs) = map (\<lambda>p. round_2 (times_100 p)) (map snd rs)"
  by (induction rs rule: relabel_and_scale.induct) simp_all

lemma relabel_and_scale_Nil_iff: "relabel_and_scale rs = [] \<longleftrightarrow> rs = []"
  by (cases rs rule: relabel_and_scale.cases) simp_all

subsection \<open>What a classification does, by what the pipeline answers\<close>

lemma classify_run:
  assumes "pipe_of E task t = Inr (results # rest)" "results \<noteq> []"
  shows "\<exists>sub ttl. classify E task t =
    ([Call_pipe task t, St_subheader sub,
      St_dataframe
        [(label_column task,
          Strs (map (\<lambda>l. if task = News_Category_Classification
                          then dict_get NEWS_LABEL_MAP l l else l) (map fst results))),
         (ascii ''Confidence (%)'',
          Nums (map (shown_confidence task) (map snd results)))],
      St_plotly_chart
        \<lparr>fig_names =
           Strs (map (\<lambda>l. if task = News_Category_Classification
                           then dict_get NEWS_LABEL_MAP l l else l) (map fst results)),
         fig_values = Nums (map (shown_confidence task) (map snd results)),
         fig_title = ttl, fig_hole = 4 / 10, fig_textinfo = ascii ''percent+label'',
         fig_pull = replicate (length results) (2 / 100)\<rparr>],
     Inr ())"
proof (cases task)
  case Sentiment_Analysis
  then show ?thesis using assms
    by (simp add: classify_def sentiment_branch_def plot_pie_chart_def px_pie_def item_0.simps
        DataFrame_def getitem_def rename_def dict_get_def run_defs shown_confidence_funs)
next
  case Toxic_Comment_Detection
  then show ?thesis using assms
    by (simp add: classify_def toxic_branch_def plot_pie_chart_def px_pie_def item_0.simps
        DataFrame_def getitem_def rename_def dict_get_def run_defs shown_confidence_funs)
next
  case News_Category_Classification
  then show ?thesis using assms
    by (simp add: classify_def category_branch_def plot_pie_chart_def px_pie_def item_0.simps
        DataFrame_def rename_def run_defs relabel_and_scale_Nil_iff
        map_fst_relabel_and_scale map_snd_relabel_and_scale Let_def shown_confidence_funs)
      (simp add: dict_get_def)
qed

lemma classify_empty:
  assumes "pipe_of E task t = Inr ([] # rest)"
  shows "classify E task t =
     (if task = News_Category_Classification
      then ([Call_pipe task t, St_subheader (ascii ''News Category Results''),
             St_dataframe []],
            Inl (ValueError (ascii ''Category'')))
      else ([Call_pipe task t], Inl (KeyError (ascii ''score''))))"
  using assms
  by (cases task) (simp_all add: branch_defs run_defs)

lemma classify_no_frame:
  assumes "pipe_of E task t = Inr []"
  shows "classify E task t = ([Call_pipe task t], Inl IndexError)"
  using assms
  by (cases task) (simp_all add: branch_defs run_defs)

lemma classify_raises:
  assumes "pipe_of E task t = Inl m"
  shows "classify E task t = ([Call_pipe task t], Inl (Exception m))"
  using assms
  by (cases task) (simp_all add: branch_defs run_defs)

lemma classify_ok:
  assumes "snd (classify E task t) = Inr ()"
  shows "\<exists>results rest. pipe_of E task t = Inr (results # rest) \<and> results \<noteq> []"
proof (cases "pipe_of E task t")
  case (Inl m)
  then show ?thesis using assms by (simp add: classify_raises)
next
  case (Inr out)
  show ?thesis
  proof (cases out)
    case Nil
    then show ?thesis using assms Inr by (simp add: classify_no_frame)
  next
    case (Cons results rest)
    then show ?thesis using assms Inr
      by (cases "results = []") (auto simp add: classify_empty split: if_splits)
  qed
qed

lemma pipe_calls_classify: "filter is_pipe (fst (classify E task t)) = [Call_pipe task t]"
  by (cases task)
    (simp_all add: classify_def sentiment_branch_def toxic_branch_def category_branch_def
      plot_pie_chart_def run_defs Let_def split: sum.splits prod.splits)

lemma translate_calls_classify: "filter is_translate (fst (classify E task t)) = []"
  by (cases task)
    (simp_all add: classify_def sentiment_branch_def toxic_branch_def category_branch_def
      plot_pie_chart_def run_defs Let_def split: sum.splits prod.splits)

subsection \<open>What a press of the button does, by what the services answer\<close>

lemma app_idle:
  assumes "\<not> button \<or> strip text = []"
  shows "app E button task text =
    ([St_info (ascii ''Enter your text and click **Analyze** to get results.'')], Inr ())"
  using assms by (auto simp add: app_def emit_def)

lemma app_detect_fails:
  assumes "button" "strip text \<noteq> []" "detect E text = Inl e"
  shows "app E button task text =
    ([Call_detect text, St_error ([0x274C] @ ascii '' Error detecting language: '' @ e)],
     Inl StopException)"
  using assms by (simp add: app_def detect_language_def run_defs)

lemma app_translate_fails:
  assumes "button" "strip text \<noteq> []" "detect E text = Inr detected_lang"
    "detected_lang \<noteq> ascii ''en''" "translate E text = Inl e"
  shows "app E button task text =
    ([Call_detect text, Call_translate text,
      St_error ([0x274C] @ ascii '' Translation failed: '' @ e)],
     Inl StopException)"
  using assms by (simp add: app_def detect_language_def translate_text_def run_defs)

lemma app_english:
  assumes "button" "strip text \<noteq> []" "detect E text = Inr (ascii ''en'')"
  shows "app E button task text =
    ([Call_detect text,
      St_markdown ([0x2705] @ ascii '' Input is in English. No translation needed.'')]
       @ fst (classify E task text),
     snd (classify E task text))"
  using assms
  by (simp add: app_def detect_language_def translate_text_def run_defs split: prod.splits)

lemma app_translated:
  assumes "button" "strip text \<noteq> []" "detect E text = Inr detected_lang"
    "detected_lang \<noteq> ascii ''en''" "translate E text = Inr translated"
  shows "app E button task text =
    ([Call_detect text, Call_translate text,
      St_markdown ([0x1F310] @ ascii '' **Detected Language**: `'' @ detected_lang
                     @ ascii ''` '' @ [0x2192] @ ascii '' Translated to English:''
                     @ [0xA] @ ascii ''> _'' @ translated @ ascii ''_'')]
       @ fst (classify E task translated),
     snd (classify E task translated))"
  using assms
  by (simp add: app_def detect_language_def translate_text_def run_defs split: prod.splits)

lemma app_run:
  assumes "button" "strip text \<noteq> []" "snd (app E button task text) = Inr ()"
  shows "\<exists>pre t. app E button task text = (pre @ fst (classify E task t), Inr ())
     \<and> snd (classify E task t) = Inr () \<and> tables pre = [] \<and> charts pre = []"
proof (cases "detect E text")
  case (Inl e)
  then show ?thesis using assms by (simp add: app_detect_fails)
next
  case (Inr detected_lang)
  show ?thesis
  proof (cases "detected_lang = ascii ''en''")
    case True
    let ?pre = "[Call_detect text,
      St_markdown ([0x2705] @ ascii '' Input is in English. No translation needed.'')]"
    have a: "app E button task text =
        (?pre @ fst (classify E task text), snd (classify E task text))"
      by (rule app_english) (use assms Inr True in simp_all)
    then have "snd (classify E task text) = Inr ()" using assms by simp
    moreover have "tables ?pre = []" "charts ?pre = []" by simp_all
    ultimately show ?thesis using a by metis
  next
    case False
    show ?thesis
    proof (cases "translate E text")
      case (Inl e)
      then show ?thesis using assms Inr False by (simp add: app_translate_fails)
    next
      case (Inr translated)
      let ?pre = "[Call_detect text, Call_translate text,
        St_markdown ([0x1F310] @ ascii '' **Detected Language**: `'' @ detected_lang
                     @ ascii ''` '' @ [0x2192] @ ascii '' Translated to English:''
                     @ [0xA] @ ascii ''> _'' @ translated @ ascii ''_'')]"
      have a: "app E button task text =
          (?pre @ fst (classify E task translated), snd (classify E task translated))"
        by (rule app_translated)
          (use assms \<open>detect E text = Inr detected_lang\<close> False Inr in simp_all)
      then have "snd (classify E task translated) = Inr ()" using assms by simp
      moreover have "tables ?pre = []" "charts ?pre = []" by simp_all
      ultimately show ?thesis using a by metis
    qed
  qed
qed

subsection \<open>What a classification shows\<close>

lemma classify_tables:
  assumes "pipe_of E task t = Inr (results # rest)" "results \<noteq> []"
  shows "tables (fst (classify E task t)) =
     [[(label_column task,
        Strs (map (\<lambda>l. if task = News_Category_Classification
                        then dict_get NEWS_LABEL_MAP l l else l) (map fst results))),
       (ascii ''Confidence (%)'',
        Nums (map (shown_confidence task) (map snd results)))]]"
  using classify_run [OF assms] by auto

lemma classify_tables_empty:
  assumes "pipe_of E task t = Inr ([] # rest)"
  shows "tables (fst (classify E task t)) =
     (if task = News_Category_Classification then [[]] else [])"
  using classify_empty [OF assms] by simp

lemma classify_confidences:
  assumes "pipe_of E task t = Inr (results # rest)"
  shows "confidences (fst (classify E task t)) =
     map (shown_confidence task) (map snd results)"
proof (cases "results = []")
  case True
  then show ?thesis using assms by (simp add: confidences_def classify_tables_empty)
next
  case False
  then show ?thesis using assms by (simp add: confidences_def classify_tables)
qed

lemma classify_chart_values:
  assumes "pipe_of E task t = Inr (results # rest)"
  shows "chart_values (fst (classify E task t)) =
     map (shown_confidence task) (map snd results)"
proof (cases "results = []")
  case True
  then show ?thesis using classify_empty [OF assms [unfolded True]]
    by (simp add: chart_values_def)
next
  case False
  then show ?thesis using classify_run [OF assms False]
    by (auto simp add: chart_values_def)
qed

subsection \<open>What the registry does\<close>

lemma load_pipelines_events:
  "\<exists>n. fst (load_pipelines pipeline) =
     take n [Call_pipeline (ascii ''distilbert-base-uncased-finetuned-sst-2-english''),
             Call_pipeline (ascii ''unitary/toxic-bert''),
             Call_pipeline (ascii ''textattack/distilbert-base-uncased-ag-news'')]"
proof (cases "pipeline (ascii ''distilbert-base-uncased-finetuned-sst-2-english'')")
  case (Inl e)
  then have "fst (load_pipelines pipeline) =
     take 1 [Call_pipeline (ascii ''distilbert-base-uncased-finetuned-sst-2-english''),
             Call_pipeline (ascii ''unitary/toxic-bert''),
             Call_pipeline (ascii ''textattack/distilbert-base-uncased-ag-news'')]"
    by (simp add: load_pipelines_def run_defs)
  then show ?thesis by blast
next
  case s: (Inr sentiment)
  show ?thesis
  proof (cases "pipeline (ascii ''unitary/toxic-bert'')")
    case (Inl e)
    then have "fst (load_pipelines pipeline) =
       take 2 [Call_pipeline (ascii ''distilbert-base-uncased-finetuned-sst-2-english''),
               Call_pipeline (ascii ''unitary/toxic-bert''),
               Call_pipeline (ascii ''textattack/distilbert-base-uncased-ag-news'')]"
      using s by (simp add: load_pipelines_def run_defs)
    then show ?thesis by blast
  next
    case t: (Inr toxic)
    have "fst (load_pipelines pipeline) =
       take 3 [Call_pipeline (ascii ''distilbert-base-uncased-finetuned-sst-2-english''),
               Call_pipeline (ascii ''unitary/toxic-bert''),
               Call_pipeline (ascii ''textattack/distilbert-base-uncased-ag-news'')]"
      using s t by (simp add: load_pipelines_def run_defs split: sum.splits)
    then show ?thesis by blast
  qed
qed

lemma distinct_count_list: "distinct xs \<Longrightarrow> count_list xs x \<le> 1"
  by (induction xs) auto

lemma load_pipelines_count:
  "count_list (fst (load_pipelines pipeline)) (Call_pipeline name) \<le> 1"
proof -
  obtain n where n: "fst (load_pipelines pipeline) =
     take n [Call_pipeline (ascii ''distilbert-base-uncased-finetuned-sst-2-english''),
             Call_pipeline (ascii ''unitary/toxic-bert''),
             Call_pipeline (ascii ''textattack/distilbert-base-uncased-ag-news'')]"
    using load_pipelines_events by blast
  have "distinct [Call_pipeline (ascii ''distilbert-base-uncased-finetuned-sst-2-english''),
             Call_pipeline (ascii ''unitary/toxic-bert''),
             Call_pipeline (ascii ''textattack/distilbert-base-uncased-ag-news'')]"
    by simp
  then have "distinct (fst (load_pipelines pipeline))"
    unfolding n by (rule distinct_take)
  then show ?thesis by (rule distinct_count_list)
qed

lemma load_pipelines_ok:
  assumes "pipeline (ascii ''distilbert-base-uncased-finetuned-sst-2-english'') = Inr s"
    "pipeline (ascii ''unitary/toxic-bert'') = Inr t"
    "pipeline (ascii ''textattack/distilbert-base-uncased-ag-news'') = Inr c"
  shows "load_pipelines pipeline =
    ([Call_pipeline (ascii ''distilbert-base-uncased-finetuned-sst-2-english''),
      Call_pipeline (ascii ''unitary/toxic-bert''),
      Call_pipeline (ascii ''textattack/distilbert-base-uncased-ag-news'')],
     Inr (s, t, c))"
  using assms by (simp add: load_pipelines_def run_defs)

lemma cache_resource_hit: "cache_resource f (Some v) = (([], Inr v), Some v)"
  by (simp add: cache_resource_def return_def)

lemma registry_calls_filled:
  "registry_calls n pipeline (Some v) = replicate n ([], Inr v)"
  by (induction n) (simp_all add: cache_resource_hit)

lemma registry_calls_empty:
  "registry_calls (Suc n) pipeline None =
     (case load_pipelines pipeline of
        (evs, Inl e) \<Rightarrow> [(evs, Inl e)]
      | (evs, Inr v) \<Rightarrow> (evs, Inr v) # replicate n ([], Inr v))"
  by (simp add: cache_resource_def registry_calls_filled split: prod.splits sum.splits)

lemma concat_replicate_Nil: "concat (replicate n []) = []"
  by (induction n) simp_all

lemma registry_calls_events:
  "concat (map fst (registry_calls n pipeline None)) = [] \<or>
   concat (map fst (registry_calls n pipeline None)) = fst (load_pipelines pipeline)"
proof (cases n)
  case 0
  then show ?thesis by simp
next
  case (Suc k)
  show ?thesis
    unfolding Suc registry_calls_empty
    by (simp add: concat_replicate_Nil split: prod.splits sum.splits)
qed

lemma registry_calls_tl:
  "r \<in> set (tl (registry_calls n pipeline None)) \<Longrightarrow>
     r = ([], snd (hd (registry_calls n pipeline None)))"
proof (cases n)
  case 0
  assume "r \<in> set (tl (registry_calls n pipeline None))"
  then show ?thesis using 0 by simp
next
  case (Suc k)
  assume "r \<in> set (tl (registry_calls n pipeline None))"
  then show ?thesis
    unfolding Suc registry_calls_empty
    by (auto split: prod.splits sum.splits)
qed

section \<open>The properties of the specification\<close>

text \<open>
  C6. The news label remapping \<open>NEWS_LABEL_MAP.get(l, l)\<close> is idempotent: for every
  label string, remapping the remapped label gives the remapped label again.
\<close>

theorem news_remap_idempotent:
  "dict_get NEWS_LABEL_MAP (dict_get NEWS_LABEL_MAP l l) (dict_get NEWS_LABEL_MAP l l)
     = dict_get NEWS_LABEL_MAP l l"
  by (simp add: NEWS_LABEL_MAP_get)

text \<open>
  C1. When language detection or translation raises, the request ends at once: the run
  consists of the calls made so far and one \<open>st.error\<close> with a readable message that
  carries the text of the exception, and it ends with the \<open>StopException\<close> of
  \<open>st.stop()\<close>. After a detection failure neither the translator nor a classifier
  is called; after a translation failure no classifier is called.
\<close>

theorem errors_halt_the_request:
  assumes "button" and "strip text \<noteq> []"
  shows
    "(detect E text = Inl e \<longrightarrow>
        app E button task text =
          ([Call_detect text,
            St_error ([0x274C] @ ascii '' Error detecting language: '' @ e)],
           Inl StopException)
        \<and> filter is_translate (fst (app E button task text)) = []
        \<and> filter is_pipe (fst (app E button task text)) = [])
     \<and> (detect E text = Inr detected_lang \<and> detected_lang \<noteq> ascii ''en''
          \<and> translate E text = Inl e \<longrightarrow>
        app E button task text =
          ([Call_detect text, Call_translate text,
            St_error ([0x274C] @ ascii '' Translation failed: '' @ e)],
           Inl StopException)
        \<and> filter is_pipe (fst (app E button task text)) = [])"
  using assms by (simp add: app_detect_fails app_translate_fails)

text \<open>
  The digits are rejected by the example detector; the French word is detected and its
  translation fails.
\<close>

theorem errors_halt_the_request_witness:
  "strip (ascii ''12345'') \<noteq> []
   \<and> detect example_env (ascii ''12345'') = Inl (ascii ''No features in text.'')
   \<and> app example_env True Sentiment_Analysis (ascii ''12345'') =
       ([Call_detect (ascii ''12345''),
         St_error ([0x274C] @ ascii '' Error detecting language: No features in text.'')],
        Inl StopException)
   \<and> strip (ascii ''Bonjour'') \<noteq> []
   \<and> detect example_env (ascii ''Bonjour'') = Inr (ascii ''fr'')
   \<and> translate example_env (ascii ''Bonjour'') = Inl (ascii ''Request exception'')
   \<and> app example_env True News_Category_Classification (ascii ''Bonjour'') =
       ([Call_detect (ascii ''Bonjour''), Call_translate (ascii ''Bonjour''),
         St_error ([0x274C] @ ascii '' Translation failed: Request exception'')],
        Inl StopException)"
proof -
  have s1: "strip (ascii ''12345'') \<noteq> []"
    by (simp add: strip_def isspace_def ascii_def)
  have d1: "detect example_env (ascii ''12345'') = Inl (ascii ''No features in text.'')"
    by (simp add: example_env_def)
  have s2: "strip (ascii ''Bonjour'') \<noteq> []"
    by (simp add: strip_def isspace_def ascii_def)
  have d2: "detect example_env (ascii ''Bonjour'') = Inr (ascii ''fr'')"
    by (simp add: example_env_def)
  have t2: "translate example_env (ascii ''Bonjour'') = Inl (ascii ''Request exception'')"
    by (simp add: example_env_def)
  have ne: "ascii ''fr'' \<noteq> ascii ''en''" by simp
  from errors_halt_the_request [OF TrueI s1, where E = example_env
      and e = "ascii ''No features in text.''" and task = Sentiment_Analysis] d1
  have r1: "app example_env True Sentiment_Analysis (ascii ''12345'') =
       ([Call_detect (ascii ''12345''),
         St_error ([0x274C] @ ascii '' Error detecting language: No features in text.'')],
        Inl StopException)"
    by (simp add: ascii_def)
  from errors_halt_the_request [OF TrueI s2, where E = example_env
      and e = "ascii ''Request exception''" and detected_lang = "ascii ''fr''"
      and task = News_Category_Classification] d2 t2 ne
  have r2: "app example_env True News_Category_Classification (ascii ''Bonjour'') =
       ([Call_detect (ascii ''Bonjour''), Call_translate (ascii ''Bonjour''),
         St_error ([0x274C] @ ascii '' Translation failed: Request exception'')],
        Inl StopException)"
    by (simp add: ascii_def)
  show ?thesis using s1 d1 r1 s2 d2 t2 r2 by blast
qed

text \<open>
  C2. When the detected language is \<open>'en'\<close>, the text goes on unchanged: the
  translation step returns the input itself without calling the translator, the run
  calls no translator, and the one classifier call of the run receives the original
  text.
\<close>

theorem english_input_is_classified_unchanged:
  assumes "button" and "strip text \<noteq> []" and "detect E text = Inr (ascii ''en'')"
  shows
    "translate_text E (ascii ''en'') text =
       ([St_markdown ([0x2705] @ ascii '' Input is in English. No translation needed.'')],
        Inr text)
     \<and> filter is_translate (fst (app E button task text)) = []
     \<and> filter is_pipe (fst (app E button task text)) = [Call_pipe task text]"
  using assms
  by (simp add: app_english pipe_calls_classify translate_calls_classify)
    (simp add: translate_text_def run_defs)

text \<open>The first scenario of the specification: an English sentence.\<close>

theorem english_input_is_classified_unchanged_witness:
  "strip (ascii ''I love this!'') \<noteq> []
   \<and> detect example_env (ascii ''I love this!'') = Inr (ascii ''en'')
   \<and> filter is_translate
        (fst (app example_env True Sentiment_Analysis (ascii ''I love this!''))) = []
   \<and> filter is_pipe
        (fst (app example_env True Sentiment_Analysis (ascii ''I love this!''))) =
        [Call_pipe Sentiment_Analysis (ascii ''I love this!'')]"
proof -
  have s: "strip (ascii ''I love this!'') \<noteq> []"
    by (simp add: strip_def isspace_def ascii_def)
  have d: "detect example_env (ascii ''I love this!'') = Inr (ascii ''en'')"
    by (simp add: example_env_def)
  show ?thesis
    using english_input_is_classified_unchanged [OF TrueI s d, of Sentiment_Analysis] s d
    by blast
qed

text \<open>
  C3 (amended). When the detected language is not \<open>'en'\<close> and the translator
  returns, the translation step returns the translator's output after one translator
  call, and the one classifier call of the run receives that output; the original text
  is passed to no classifier whenever the translator's output differs from it.
\<close>

theorem translated_input_is_classified_as_translated:
  assumes "button" and "strip text \<noteq> []" and "detect E text = Inr detected_lang"
    and "detected_lang \<noteq> ascii ''en''" and "translate E text = Inr translated"
  shows
    "translate_text E detected_lang text =
       ([Call_translate text,
         St_markdown ([0x1F310] @ ascii '' **Detected Language**: `'' @ detected_lang
                     @ ascii ''` '' @ [0x2192] @ ascii '' Translated to English:''
                     @ [0xA] @ ascii ''> _'' @ translated @ ascii ''_'')],
        Inr translated)
     \<and> filter is_translate (fst (app E button task text)) = [Call_translate text]
     \<and> filter is_pipe (fst (app E button task text)) = [Call_pipe task translated]
     \<and> (translated \<noteq> text \<longrightarrow> Call_pipe task text \<notin> set (fst (app E button task text)))"
proof -
  have a: "translate_text E detected_lang text =
       ([Call_translate text,
         St_markdown ([0x1F310] @ ascii '' **Detected Language**: `'' @ detected_lang
                     @ ascii ''` '' @ [0x2192] @ ascii '' Translated to English:''
                     @ [0xA] @ ascii ''> _'' @ translated @ ascii ''_'')],
        Inr translated)"
    using assms by (simp add: translate_text_def run_defs)
  have b: "filter is_translate (fst (app E button task text)) = [Call_translate text]"
    using assms by (simp add: app_translated translate_calls_classify)
  have c: "filter is_pipe (fst (app E button task text)) = [Call_pipe task translated]"
    using assms by (simp add: app_translated pipe_calls_classify)
  have "Call_pipe task text \<notin> set (fst (app E button task text))" if "translated \<noteq> text"
  proof
    assume "Call_pipe task text \<in> set (fst (app E button task text))"
    then have "Call_pipe task text \<in> set (filter is_pipe (fst (app E button task text)))"
      by simp
    then show False using c that by simp
  qed
  then show ?thesis using a b c by blast
qed

text \<open>The second scenario of the specification: a Spanish sentence.\<close>

theorem translated_input_is_classified_as_translated_witness:
  "strip (ascii ''Me encanta esto!'') \<noteq> []
   \<and> detect example_env (ascii ''Me encanta esto!'') = Inr (ascii ''es'')
   \<and> ascii ''es'' \<noteq> ascii ''en''
   \<and> translate example_env (ascii ''Me encanta esto!'') = Inr (ascii ''I love this!'')
   \<and> filter is_pipe
        (fst (app example_env True Sentiment_Analysis (ascii ''Me encanta esto!''))) =
        [Call_pipe Sentiment_Analysis (ascii ''I love this!'')]
   \<and> Call_pipe Sentiment_Analysis (ascii ''Me encanta esto!'')
        \<notin> set (fst (app example_env True Sentiment_Analysis (ascii ''Me encanta esto!'')))"
proof -
  have s: "strip (ascii ''Me encanta esto!'') \<noteq> []"
    by (simp add: strip_def isspace_def ascii_def)
  have d: "detect example_env (ascii ''Me encanta esto!'') = Inr (ascii ''es'')"
    by (simp add: example_env_def)
  have n: "ascii ''es'' \<noteq> ascii ''en''" by simp
  have t: "translate example_env (ascii ''Me encanta esto!'') = Inr (ascii ''I love this!'')"
    by (simp add: example_env_def)
  have x: "ascii ''I love this!'' \<noteq> ascii ''Me encanta esto!''" by simp
  show ?thesis
    using translated_input_is_classified_as_translated
      [OF TrueI s d n t, of Sentiment_Analysis] s d n t x
    by blast
qed

text \<open>
  C3 as stated has the classifier never receive the original input. The example
  detector takes the English \<open>Hi there\<close> for Finnish and the example translator
  returns it as it is: the translation succeeds, and the classifier receives the
  original input.
\<close>

theorem translated_input_can_be_the_original:
  "strip (ascii ''Hi there'') \<noteq> []
   \<and> detect example_env (ascii ''Hi there'') = Inr (ascii ''fi'')
   \<and> ascii ''fi'' \<noteq> ascii ''en''
   \<and> translate example_env (ascii ''Hi there'') = Inr (ascii ''Hi there'')
   \<and> filter is_pipe
        (fst (app example_env True Sentiment_Analysis (ascii ''Hi there''))) =
        [Call_pipe Sentiment_Analysis (ascii ''Hi there'')]"
proof -
  have s: "strip (ascii ''Hi there'') \<noteq> []"
    by (simp add: strip_def isspace_def ascii_def)
  have d: "detect example_env (ascii ''Hi there'') = Inr (ascii ''fi'')"
    by (simp add: example_env_def)
  have n: "ascii ''fi'' \<noteq> ascii ''en''" by simp
  have t: "translate example_env (ascii ''Hi there'') = Inr (ascii ''Hi there'')"
    by (simp add: example_env_def)
  have "filter is_pipe
        (fst (app example_env True Sentiment_Analysis (ascii ''Hi there''))) =
        [Call_pipe Sentiment_Analysis (ascii ''Hi there'')]"
    using app_translated [OF TrueI s d n t, of Sentiment_Analysis]
    by (simp add: pipe_calls_classify)
  then show ?thesis using s d n t by blast
qed

text \<open>
  C9. For a text that is empty or made of whitespace only, a press of Analyze does
  nothing but show the informational prompt: no detection, no translation, no
  classification.
\<close>

theorem blank_input_runs_nothing:
  assumes "\<forall>c\<in>set text. isspace c"
  shows "app E button task text =
    ([St_info (ascii ''Enter your text and click **Analyze** to get results.'')], Inr ())"
  using assms by (simp add: app_idle strip_all_space)

text \<open>A space, an ideographic space and a newline; and the empty text.\<close>

theorem blank_input_runs_nothing_witness:
  "list_all isspace (ascii '' '' @ [0x3000, 0xA])
   \<and> app example_env True Toxic_Comment_Detection (ascii '' '' @ [0x3000, 0xA]) =
       ([St_info (ascii ''Enter your text and click **Analyze** to get results.'')], Inr ())
   \<and> app example_env True Toxic_Comment_Detection [] =
       ([St_info (ascii ''Enter your text and click **Analyze** to get results.'')], Inr ())"
proof -
  have h: "\<forall>c\<in>set (ascii '' '' @ [0x3000, 0xA]). isspace c"
    by (simp add: isspace_def ascii_def)
  have h0: "\<forall>c\<in>set ([]::str). isspace c" by simp
  have h': "list_all isspace (ascii '' '' @ [0x3000, 0xA])"
    using h by (simp only: list_all_iff)
  show ?thesis
    using blank_input_runs_nothing [OF h, of example_env True Toxic_Comment_Detection]
      blank_input_runs_nothing [OF h0, of example_env True Toxic_Comment_Detection] h'
    by blast
qed

text \<open>
  C4 (amended). Whatever the task, if every score that the classifier emits is a
  probability, the confidence values shown in the table (and given to the chart) are
  computed from the scores entry by entry, in binary floating point. Each shown value
  is a finite float in \<open>[0, 100]\<close>; it is the float nearest to a whole number of
  hundredths between 0 and 100; and it differs from the probability times 100 by at
  most half a hundredth and \<open>2^-44\<close>.
\<close>

theorem confidences_are_percentages:
  assumes "pipe_of E task t = Inr (results # rest)"
    and "\<forall>s\<in>set (map snd results). probability s"
  shows
    "confidences (fst (classify E task t)) = map (shown_confidence task) (map snd results)
     \<and> chart_values (fst (classify E task t)) = confidences (fst (classify E task t))
     \<and> (\<forall>p. Finite p \<in> set (map snd results) \<longrightarrow>
          (\<exists>n c. shown_confidence task (Finite p) = Finite c
             \<and> 0 \<le> c \<and> c \<le> 100
             \<and> 0 \<le> n \<and> n \<le> 10000 \<and> c = fl (of_int n / 100)
             \<and> \<bar>c - p * 100\<bar> \<le> 1 / 200 + 1 / 2 ^ 44))"
proof -
  have a: "confidences (fst (classify E task t)) =
      map (shown_confidence task) (map snd results)"
    using assms(1) by (rule classify_confidences)
  have b: "chart_values (fst (classify E task t)) = confidences (fst (classify E task t))"
    using assms(1) by (simp add: a classify_chart_values)
  have c: "\<exists>n c. shown_confidence task (Finite p) = Finite c
             \<and> 0 \<le> c \<and> c \<le> 100
             \<and> 0 \<le> n \<and> n \<le> 10000 \<and> c = fl (of_int n / 100)
             \<and> \<bar>c - p * 100\<bar> \<le> 1 / 200 + 1 / 2 ^ 44"
    if "Finite p \<in> set (map snd results)" for p
  proof -
    from that assms(2) have "probability (Finite p)" by blast
    then have "0 \<le> p" "p \<le> 1" by simp_all
    from shown_confidence_percent [OF this, of task] show ?thesis by blast
  qed
  show ?thesis using a b c by blast
qed

text \<open>
  The example news classifier: \<open>0.75\<close>, \<open>0.0625\<close> and \<open>0\<close> are shown as \<open>75\<close>,
  \<open>6.25\<close> and \<open>0\<close>.
\<close>

theorem confidences_are_percentages_witness:
  "pipe_of example_env News_Category_Classification (ascii ''hello'') =
     Inr ([(ascii ''LABEL_2'', Finite (3 / 4)), (ascii ''LABEL_9'', Finite (1 / 16)),
           (ascii ''LABEL_0'', Finite 0)] # [])
   \<and> list_all probability
        (map snd [(ascii ''LABEL_2'', Finite (3 / 4)), (ascii ''LABEL_9'', Finite (1 / 16)),
                  (ascii ''LABEL_0'', Finite 0)])
   \<and> confidences (fst (classify example_env News_Category_Classification (ascii ''hello''))) =
       [Finite 75, Finite (25 / 4), Finite 0]
   \<and> chart_values (fst (classify example_env News_Category_Classification (ascii ''hello''))) =
       [Finite 75, Finite (25 / 4), Finite 0]"
proof -
  have h: "pipe_of example_env News_Category_Classification (ascii ''hello'') =
     Inr ([(ascii ''LABEL_2'', Finite (3 / 4)), (ascii ''LABEL_9'', Finite (1 / 16)),
           (ascii ''LABEL_0'', Finite 0)] # [])"
    by (simp add: example_env_def)
  have r: "\<forall>s\<in>set (map snd [(ascii ''LABEL_2'', Finite (3 / 4)),
        (ascii ''LABEL_9'', Finite (1 / 16)), (ascii ''LABEL_0'', Finite 0)]). probability s"
    by simp
  have r': "list_all probability
        (map snd [(ascii ''LABEL_2'', Finite (3 / 4)), (ascii ''LABEL_9'', Finite (1 / 16)),
                  (ascii ''LABEL_0'', Finite 0)])"
    by simp
  from confidences_are_percentages [OF h r]
  have c: "confidences
      (fst (classify example_env News_Category_Classification (ascii ''hello''))) =
      map (shown_confidence News_Category_Classification)
        (map snd [(ascii ''LABEL_2'', Finite (3 / 4)), (ascii ''LABEL_9'', Finite (1 / 16)),
                  (ascii ''LABEL_0'', Finite 0)])"
    and v: "chart_values
      (fst (classify example_env News_Category_Classification (ascii ''hello''))) =
      confidences (fst (classify example_env News_Category_Classification (ascii ''hello'')))"
    by blast+
  have c': "confidences
      (fst (classify example_env News_Category_Classification (ascii ''hello''))) =
       [Finite 75, Finite (25 / 4), Finite 0]"
    unfolding c by (simp only: list.map snd_conv shown_confidence.simps example_confidences)
  show ?thesis using h r' c' v by simp
qed

text \<open>
  C4 as stated has the shown value be the probability times 100 rounded to two
  decimals. The example toxicity classifier emits the float that \<open>0.00545\<close> denotes.
  Times 100 it is less than \<open>0.545\<close> and rounds to \<open>0.54\<close>; the value shown is the
  float of \<open>0.55\<close>, more than half a hundredth away from the probability times 100
  (and no whole number of hundredths: no float is \<open>0.55\<close> exactly).
\<close>

theorem shown_confidence_is_not_the_rounded_product:
  "pipe_of example_env Toxic_Comment_Detection (ascii ''hello'') =
     Inr ([(ascii ''toxic'', Finite (1570855550026829 / 2 ^ 58))] # [])
   \<and> probability (Finite (1570855550026829 / 2 ^ 58))
   \<and> confidences (fst (classify example_env Toxic_Comment_Detection (ascii ''hello''))) =
       [Finite (2476979795053773 / 2 ^ 52)]
   \<and> round_half_even (1570855550026829 / 2 ^ 58 * 100 * 100) = 54
   \<and> 1 / 200 < \<bar>2476979795053773 / 2 ^ 52 - 1570855550026829 / 2 ^ 58 * (100::rat)\<bar>
   \<and> 2476979795053773 / 2 ^ 52 \<noteq> (55 / 100 :: rat)"
proof -
  have h: "pipe_of example_env Toxic_Comment_Detection (ascii ''hello'') =
     Inr ([(ascii ''toxic'', Finite (1570855550026829 / 2 ^ 58))] # [])"
    by (simp add: example_env_def)
  have p: "probability (Finite (1570855550026829 / 2 ^ 58))" by simp
  have "confidences (fst (classify example_env Toxic_Comment_Detection (ascii ''hello''))) =
      map (shown_confidence Toxic_Comment_Detection)
        (map snd [(ascii ''toxic'', Finite (1570855550026829 / 2 ^ 58))])"
    using h by (rule classify_confidences)
  then have c: "confidences
      (fst (classify example_env Toxic_Comment_Detection (ascii ''hello''))) =
       [Finite (2476979795053773 / 2 ^ 52)]"
    by (simp only: list.map snd_conv shown_confidence.simps around_2_0_00545)
  have r: "round_half_even (1570855550026829 / 2 ^ 58 * 100 * 100) = 54"
    by (rule round_half_even_examples)
  have f: "1 / 200 < \<bar>2476979795053773 / 2 ^ 52 - 1570855550026829 / 2 ^ 58 * (100::rat)\<bar>"
    by simp
  have n: "2476979795053773 / 2 ^ 52 \<noteq> (55 / 100 :: rat)" by simp
  show ?thesis using h p c r f n by blast
qed

text \<open>
  C5. The label column of the table shown holds the emitted labels in their order,
  rewritten for the news task only: there \<open>LABEL_0\<close>, \<open>LABEL_1\<close>, \<open>LABEL_2\<close> and
  \<open>LABEL_3\<close> become \<open>World\<close>, \<open>Sports\<close>, \<open>Business\<close> and \<open>Sci/Tech\<close>, and any
  other label stays as it is; for sentiment and toxicity every label stays as it is.
\<close>

theorem labels_are_remapped_for_news_only:
  assumes "pipe_of E task t = Inr (results # rest)" and "results \<noteq> []"
  shows
    "map (\<lambda>df. map_of df (label_column task)) (tables (fst (classify E task t))) =
       [Some (Strs (map
          (\<lambda>l. if task \<noteq> News_Category_Classification then l
               else if l = ascii ''LABEL_0'' then ascii ''World''
               else if l = ascii ''LABEL_1'' then ascii ''Sports''
               else if l = ascii ''LABEL_2'' then ascii ''Business''
               else if l = ascii ''LABEL_3'' then ascii ''Sci/Tech''
               else l)
          (map fst results)))]"
  using assms by (cases task) (simp_all add: classify_tables NEWS_LABEL_MAP_get)

text \<open>
  The last scenario of the specification: \<open>LABEL_2\<close> is shown as \<open>Business\<close> and
  the unmapped \<open>LABEL_9\<close> as itself; the sentiment labels are shown as emitted.
\<close>

theorem labels_are_remapped_for_news_only_witness:
  "pipe_of example_env News_Category_Classification (ascii ''hello'') =
     Inr ([(ascii ''LABEL_2'', Finite (3 / 4)), (ascii ''LABEL_9'', Finite (1 / 16)),
           (ascii ''LABEL_0'', Finite 0)] # [])
   \<and> [(ascii ''LABEL_2'', Finite (3 / 4)), (ascii ''LABEL_9'', Finite (1 / 16)),
       (ascii ''LABEL_0'', Finite 0)] \<noteq> []
   \<and> map (\<lambda>df. map_of df (ascii ''Category''))
        (tables (fst (classify example_env News_Category_Classification (ascii ''hello'')))) =
       [Some (Strs [ascii ''Business'', ascii ''LABEL_9'', ascii ''World''])]
   \<and> pipe_of example_env Sentiment_Analysis (ascii ''hello'') =
     Inr ([(ascii ''NEGATIVE'', Finite (1 / 8)), (ascii ''POSITIVE'', Finite (7 / 8))] # [])
   \<and> map (\<lambda>df. map_of df (ascii ''Sentiment''))
        (tables (fst (classify example_env Sentiment_Analysis (ascii ''hello'')))) =
       [Some (Strs [ascii ''NEGATIVE'', ascii ''POSITIVE''])]"
proof -
  have h: "pipe_of example_env News_Category_Classification (ascii ''hello'') =
     Inr ([(ascii ''LABEL_2'', Finite (3 / 4)), (ascii ''LABEL_9'', Finite (1 / 16)),
           (ascii ''LABEL_0'', Finite 0)] # [])"
    by (simp add: example_env_def)
  have n: "[(ascii ''LABEL_2'', Finite (3 / 4)), (ascii ''LABEL_9'', Finite (1 / 16)),
       (ascii ''LABEL_0'', Finite 0)] \<noteq> []"
    by simp
  have h': "pipe_of example_env Sentiment_Analysis (ascii ''hello'') =
     Inr ([(ascii ''NEGATIVE'', Finite (1 / 8)), (ascii ''POSITIVE'', Finite (7 / 8))] # [])"
    by (simp add: example_env_def)
  have n': "[(ascii ''NEGATIVE'', Finite (1 / 8)), (ascii ''POSITIVE'', Finite (7 / 8))] \<noteq> []"
    by simp
  show ?thesis
    using labels_are_remapped_for_news_only [OF h n]
      labels_are_remapped_for_news_only [OF h' n'] h h'
    by simp
qed

text \<open>
  C7. Whatever the task and whatever list of label/probability entries the classifier
  emits, every table shown has as many rows as there are entries, and for a non-empty
  list the one table shown holds, position by position, the (display) label and the
  confidence of the entry emitted at that position: nothing is sorted, dropped or
  merged.
\<close>

theorem displayed_order_is_emitted_order:
  assumes "pipe_of E task t = Inr (results # rest)"
  shows
    "(\<forall>df\<in>set (tables (fst (classify E task t))). len df = length results)
     \<and> (results \<noteq> [] \<longrightarrow>
          tables (fst (classify E task t)) =
            [[(label_column task,
               Strs (map (\<lambda>l. if task = News_Category_Classification
                               then dict_get NEWS_LABEL_MAP l l else l)
                      (map fst results))),
              (ascii ''Confidence (%)'',
               Nums (map (shown_confidence task) (map snd results)))]])"
proof (cases "results = []")
  case True
  then show ?thesis using assms by (simp add: classify_tables_empty)
next
  case False
  then show ?thesis using assms by (simp add: classify_tables)
qed

text \<open>
  The example news classifier emits its entries neither in label order nor in order
  of confidence; the table keeps the emitted order.
\<close>

theorem displayed_order_is_emitted_order_witness:
  "pipe_of example_env News_Category_Classification (ascii ''hello'') =
     Inr ([(ascii ''LABEL_2'', Finite (3 / 4)), (ascii ''LABEL_9'', Finite (1 / 16)),
           (ascii ''LABEL_0'', Finite 0)] # [])
   \<and> tables (fst (classify example_env News_Category_Classification (ascii ''hello''))) =
       [[(ascii ''Category'', Strs [ascii ''Business'', ascii ''LABEL_9'', ascii ''World'']),
         (ascii ''Confidence (%)'', Nums [Finite 75, Finite (25 / 4), Finite 0])]]
   \<and> map len (tables (fst (classify example_env News_Category_Classification
          (ascii ''hello'')))) = [3]"
proof -
  have h: "pipe_of example_env News_Category_Classification (ascii ''hello'') =
     Inr ([(ascii ''LABEL_2'', Finite (3 / 4)), (ascii ''LABEL_9'', Finite (1 / 16)),
           (ascii ''LABEL_0'', Finite 0)] # [])"
    by (simp add: example_env_def)
  show ?thesis
    using displayed_order_is_emitted_order [OF h] h
    by (simp add: NEWS_LABEL_MAP_get example_floats round_half_even_numeral)
qed

text \<open>
  C10. A request that runs to its end shows one table, and the chart is built from the
  same frame: the names and the values of the figure are the label column and the
  confidence column of the table, entry by entry in the same order. (How plotly then
  draws the sectors is outside the script.)
\<close>

theorem table_and_chart_show_the_same:
  assumes "button" and "strip text \<noteq> []" and "snd (app E button task text) = Inr ()"
  shows
    "length (tables (fst (app E button task text))) = 1
     \<and> map (\<lambda>fig. [(label_column task, fig_names fig),
                    (ascii ''Confidence (%)'', fig_values fig)])
         (charts (fst (app E button task text)))
       = tables (fst (app E button task text))"
proof -
  from app_run [OF assms] obtain pre t where
    a: "app E button task text = (pre @ fst (classify E task t), Inr ())"
    and ok: "snd (classify E task t) = Inr ()"
    and pre: "tables pre = []" "charts pre = []"
    by blast
  from classify_ok [OF ok] obtain results rest where
    p: "pipe_of E task t = Inr (results # rest)" and ne: "results \<noteq> []"
    by blast
  from classify_run [OF p ne] obtain sub ttl where
    "classify E task t =
    ([Call_pipe task t, St_subheader sub,
      St_dataframe
        [(label_column task,
          Strs (map (\<lambda>l. if task = News_Category_Classification
                          then dict_get NEWS_LABEL_MAP l l else l) (map fst results))),
         (ascii ''Confidence (%)'',
          Nums (map (shown_confidence task) (map snd results)))],
      St_plotly_chart
        \<lparr>fig_names =
           Strs (map (\<lambda>l. if task = News_Category_Classification
                           then dict_get NEWS_LABEL_MAP l l else l) (map fst results)),
         fig_values = Nums (map (shown_confidence task) (map snd results)),
         fig_title = ttl, fig_hole = 4 / 10, fig_textinfo = ascii ''percent+label'',
         fig_pull = replicate (length results) (2 / 100)\<rparr>],
     Inr ())"
    by blast
  then show ?thesis using a pre by (simp add: tables_append charts_append)
qed

text \<open>The Spanish sentence, translated and classified for sentiment.\<close>

theorem table_and_chart_show_the_same_witness:
  "strip (ascii ''Me encanta esto!'') \<noteq> []
   \<and> snd (app example_env True Sentiment_Analysis (ascii ''Me encanta esto!'')) = Inr ()
   \<and> tables (fst (app example_env True Sentiment_Analysis (ascii ''Me encanta esto!''))) =
       [[(ascii ''Sentiment'', Strs [ascii ''NEGATIVE'', ascii ''POSITIVE'']),
         (ascii ''Confidence (%)'', Nums [Finite (25 / 2), Finite (175 / 2)])]]
   \<and> map (\<lambda>fig. [(ascii ''Sentiment'', fig_names fig),
                    (ascii ''Confidence (%)'', fig_values fig)])
         (charts (fst (app example_env True Sentiment_Analysis (ascii ''Me encanta esto!''))))
       = [[(ascii ''Sentiment'', Strs [ascii ''NEGATIVE'', ascii ''POSITIVE'']),
         (ascii ''Confidence (%)'', Nums [Finite (25 / 2), Finite (175 / 2)])]]"
proof -
  have s: "strip (ascii ''Me encanta esto!'') \<noteq> []"
    by (simp add: strip_def isspace_def ascii_def)
  have d: "detect example_env (ascii ''Me encanta esto!'') = Inr (ascii ''es'')"
    by (simp add: example_env_def)
  have n: "ascii ''es'' \<noteq> ascii ''en''" by simp
  have t: "translate example_env (ascii ''Me encanta esto!'') = Inr (ascii ''I love this!'')"
    by (simp add: example_env_def)
  have p: "pipe_of example_env Sentiment_Analysis (ascii ''I love this!'') =
     Inr ([(ascii ''NEGATIVE'', Finite (1 / 8)), (ascii ''POSITIVE'', Finite (7 / 8))] # [])"
    by (simp add: example_env_def)
  have tb: "tables (fst (app example_env True Sentiment_Analysis (ascii ''Me encanta esto!''))) =
       [[(ascii ''Sentiment'', Strs [ascii ''NEGATIVE'', ascii ''POSITIVE'']),
         (ascii ''Confidence (%)'', Nums [Finite (25 / 2), Finite (175 / 2)])]]"
    using s d n t p
    by (simp add: app_translated tables_append classify_tables example_floats
        round_half_even_numeral)
  have ok: "snd (app example_env True Sentiment_Analysis (ascii ''Me encanta esto!'')) = Inr ()"
    using s d n t classify_run [OF p] by (auto simp add: app_translated)
  show ?thesis
    using table_and_chart_show_the_same [OF TrueI s ok] s ok tb by simp
qed

text \<open>
  C8. Within one process the pipelines are constructed at most once: over any number
  of successive calls of the registry, starting with the cache empty, no model is
  constructed twice; a call that finds the cache filled constructs nothing and returns
  the memoized classifiers; and every call after the first constructs nothing and
  returns what the first call returned. When the three constructions succeed, the
  first call is the one that performs them. The decorator is modelled from the
  specification.
\<close>

theorem pipelines_are_constructed_at_most_once:
  "count_list (concat (map fst (registry_calls n pipeline None))) (Call_pipeline name) \<le> 1
   \<and> cache_resource (load_pipelines pipeline) (Some v) = (([], Inr v), Some v)
   \<and> (\<forall>r\<in>set (tl (registry_calls n pipeline None)).
         r = ([], snd (hd (registry_calls n pipeline None))))
   \<and> (pipeline (ascii ''distilbert-base-uncased-finetuned-sst-2-english'') = Inr s
        \<and> pipeline (ascii ''unitary/toxic-bert'') = Inr t
        \<and> pipeline (ascii ''textattack/distilbert-base-uncased-ag-news'') = Inr c \<longrightarrow>
      registry_calls (Suc n) pipeline None =
        ([Call_pipeline (ascii ''distilbert-base-uncased-finetuned-sst-2-english''),
          Call_pipeline (ascii ''unitary/toxic-bert''),
          Call_pipeline (ascii ''textattack/distilbert-base-uncased-ag-news'')],
         Inr (s, t, c))
        # replicate n ([], Inr (s, t, c)))"
proof -
  have a: "count_list (concat (map fst (registry_calls n pipeline None)))
      (Call_pipeline name) \<le> 1"
    using registry_calls_events [of n pipeline] load_pipelines_count [of pipeline name]
    by auto
  have b: "cache_resource (load_pipelines pipeline) (Some v) = (([], Inr v), Some v)"
    by (rule cache_resource_hit)
  have c: "\<forall>r\<in>set (tl (registry_calls n pipeline None)).
         r = ([], snd (hd (registry_calls n pipeline None)))"
    by (intro ballI registry_calls_tl)
  have d: "registry_calls (Suc n) pipeline None =
        ([Call_pipeline (ascii ''distilbert-base-uncased-finetuned-sst-2-english''),
          Call_pipeline (ascii ''unitary/toxic-bert''),
          Call_pipeline (ascii ''textattack/distilbert-base-uncased-ag-news'')],
         Inr (s, t, c))
        # replicate n ([], Inr (s, t, c))"
    if "pipeline (ascii ''distilbert-base-uncased-finetuned-sst-2-english'') = Inr s"
      "pipeline (ascii ''unitary/toxic-bert'') = Inr t"
      "pipeline (ascii ''textattack/distilbert-base-uncased-ag-news'') = Inr c"
    unfolding registry_calls_empty load_pipelines_ok [OF that] by simp
  show ?thesis using a b c d by blast
qed

text \<open>
  Three script runs in a process whose constructor hands out the example classifiers:
  the first call constructs the three pipelines, the other two construct nothing and
  return the same classifiers.
\<close>

theorem pipelines_are_constructed_at_most_once_witness:
  "example_pipeline (ascii ''distilbert-base-uncased-finetuned-sst-2-english'') =
     Inr (sentiment_pipe example_env)
   \<and> example_pipeline (ascii ''unitary/toxic-bert'') = Inr (toxic_pipe example_env)
   \<and> example_pipeline (ascii ''textattack/distilbert-base-uncased-ag-news'') =
     Inr (category_pipe example_env)
   \<and> registry_calls 3 example_pipeline None =
       [([Call_pipeline (ascii ''distilbert-base-uncased-finetuned-sst-2-english''),
          Call_pipeline (ascii ''unitary/toxic-bert''),
          Call_pipeline (ascii ''textattack/distilbert-base-uncased-ag-news'')],
         Inr (sentiment_pipe example_env, toxic_pipe example_env,
              category_pipe example_env)),
        ([], Inr (sentiment_pipe example_env, toxic_pipe example_env,
              category_pipe example_env)),
        ([], Inr (sentiment_pipe example_env, toxic_pipe example_env,
              category_pipe example_env))]
   \<and> list_all (\<lambda>r. r = ([], snd (hd (registry_calls 3 example_pipeline None))))
        (tl (registry_calls 3 example_pipeline None))"
proof -
  have s: "example_pipeline (ascii ''distilbert-base-uncased-finetuned-sst-2-english'') =
     Inr (sentiment_pipe example_env)"
    by (simp add: example_pipeline_def)
  have t: "example_pipeline (ascii ''unitary/toxic-bert'') = Inr (toxic_pipe example_env)"
    by (simp add: example_pipeline_def)
  have c: "example_pipeline (ascii ''textattack/distilbert-base-uncased-ag-news'') =
     Inr (category_pipe example_env)"
    by (simp add: example_pipeline_def)
  have three: "(3::nat) = Suc 2" by simp
  note th = pipelines_are_constructed_at_most_once
    [where pipeline = example_pipeline and s = "sentiment_pipe example_env"
       and t = "toxic_pipe example_env" and c = "category_pipe example_env"]
  have calls: "registry_calls 3 example_pipeline None =
       [([Call_pipeline (ascii ''distilbert-base-uncased-finetuned-sst-2-english''),
          Call_pipeline (ascii ''unitary/toxic-bert''),
          Call_pipeline (ascii ''textattack/distilbert-base-uncased-ag-news'')],
         Inr (sentiment_pipe example_env, toxic_pipe example_env,
              category_pipe example_env)),
        ([], Inr (sentiment_pipe example_env, toxic_pipe example_env,
              category_pipe example_env)),
        ([], Inr (sentiment_pipe example_env, toxic_pipe example_env,
              category_pipe example_env))]"
    unfolding three using th [where n = 2] s t c by (simp add: numeral_2_eq_2)
  have rest: "list_all (\<lambda>r. r = ([], snd (hd (registry_calls 3 example_pipeline None))))
        (tl (registry_calls 3 example_pipeline None))"
    unfolding list_all_iff using th [where n = 3] by blast
  show ?thesis using s t c calls rest by blast
qed

end
